theory Spec2Isabelle
  imports Complex_Main
begin

section \<open>Payload types of the dashboard (the interfaces of DashBoard\_v2.tsx)\<close>

text \<open>
  The TypeScript interfaces type what the server sends; the model takes every payload at
  its declared type. A JavaScript \<^verbatim>\<open>number\<close> is written as a real: no property below
  computes with it.
\<close>

type_synonym number = real

record Device =
  deviceId :: string
  name :: string
  location :: string
  status :: string
  type :: string
  registeredAt :: "string option"

record SensorData =
  deviceId :: string
  sensorType :: string
  "value" :: number
  timestamp :: string

record Alert =
  deviceId :: string
  timestamp :: string
  sensorType :: string
  message :: string
  severity :: string
  "value" :: number

record User =
  username :: string
  displayName :: string
  role :: string

record DeviceEvent =
  deviceId :: string
  eventTime :: string
  description :: string
  eventType :: string

text \<open>
  The body of an HTTP response, \<^verbatim>\<open>response.data\<close>. \<open>NoData\<close> is the empty body (falsy in
  JavaScript); \<open>TokenData\<close> is \<^verbatim>\<open>{accessToken, refreshToken}\<close>; \<open>MessageData\<close> is
  \<^verbatim>\<open>{message}\<close>; the others are the typed results of the GET endpoints, \<open>SensorDatum\<close>
  a single reading sent without an enclosing array.
\<close>

datatype payload =
    NoData
  | TokenData string string
  | MessageData string
  | UserData User
  | DeviceData "Device list"
  | AlertData "Alert list"
  | EventData "DeviceEvent list"
  | SensorDataList "SensorData list"
  | SensorDatum SensorData

section \<open>The HTTP client: requests, responses, errors\<close>

text \<open>
  An axios request configuration. \<open>body\<close> holds the fields of the JSON object or of
  the form data sent; \<open>contentType\<close> and \<open>Authorization\<close> are the two headers the
  module sets; \<open>retry\<close> is the ad-hoc \<^verbatim>\<open>_retry\<close> flag (undefined reads as false).
\<close>

record request =
  "method" :: string
  url :: string
  body :: "(string \<times> string) list"
  contentType :: string
  Authorization :: "string option"
  retry :: bool

record response =
  status :: nat
  data :: payload

text \<open>
  What a rejected promise carries: an axios error with the configuration it was sent
  with and the response, if one arrived (\<^verbatim>\<open>error.config\<close>, \<^verbatim>\<open>error.response\<close>), or a
  plain JavaScript \<^verbatim>\<open>Error\<close> with its message.
\<close>

datatype error =
    AxiosError request "response option"
  | Error string

text \<open>What the network gives back for one call: a response, or nothing at all.\<close>

datatype reply = Reply nat payload | NoReply

text \<open>
  The calls that left the browser, oldest first: a request sent through
  \<^verbatim>\<open>axiosInstance\<close>, or the plain \<^verbatim>\<open>axios.post\<close> to \<^verbatim>\<open>/auth/refresh\<close> with the
  refresh token and the access token it carried.
\<close>

datatype net_call = InstanceCall request | RefreshCall string string

text \<open>
  The browser as the module sees it: \<^verbatim>\<open>localStorage\<close>, \<^verbatim>\<open>window.location.href\<close>, the
  replies the server will give to the coming calls (one per call, in order; none left
  means the network fails), and the log of calls made.
\<close>

record browser =
  localStorage :: "string \<rightharpoonup> string"
  href :: string
  replies :: "reply list"
  net_log :: "net_call list"

text \<open>JavaScript truthiness of \<^verbatim>\<open>localStorage.getItem(k)\<close>: \<^verbatim>\<open>null\<close> and \<^verbatim>\<open>""\<close> are falsy.\<close>

definition truthy :: "string option \<Rightarrow> bool" where
  "truthy v = (case v of None \<Rightarrow> False | Some s \<Rightarrow> s \<noteq> [])"

definition Bearer :: "string \<Rightarrow> string" where
  "Bearer token = ''Bearer '' @ token"

text \<open>
  axios settles a call: no reply rejects with an error without response; a status in
  200..299 resolves (the default \<^verbatim>\<open>validateStatus\<close>); any other status rejects with the
  response attached.
\<close>

definition settle :: "request \<Rightarrow> reply \<Rightarrow> error + response" where
  "settle config r =
     (case r of
        NoReply \<Rightarrow> Inl (AxiosError config None)
      | Reply st d \<Rightarrow>
          if 200 \<le> st \<and> st < 300 then Inr \<lparr>status = st, data = d\<rparr>
          else Inl (AxiosError config (Some \<lparr>status = st, data = d\<rparr>)))"

definition next_reply :: "reply list \<Rightarrow> reply \<times> reply list" where
  "next_reply rs = (case rs of [] \<Rightarrow> (NoReply, []) | r # rs' \<Rightarrow> (r, rs'))"

text \<open>The request interceptor (lines 43-52): attach the stored access token, if truthy.\<close>

definition request_interceptor :: "'a browser_scheme \<Rightarrow> request \<Rightarrow> request" where
  "request_interceptor w config =
     (let token = localStorage w ''accessToken'' in
      if truthy token then config\<lparr>Authorization := Some (Bearer (the token))\<rparr>
      else config)"

text \<open>Sending a configured request through the instance's adapter.\<close>

definition dispatch :: "'a browser_scheme \<Rightarrow> request \<Rightarrow> (error + response) \<times> 'a browser_scheme" where
  "dispatch w config =
     (let (r, rest) = next_reply (replies w) in
      (settle config r, w\<lparr>replies := rest, net_log := net_log w @ [InstanceCall config]\<rparr>))"

definition refresh_request :: "string \<Rightarrow> string \<Rightarrow> request" where
  "refresh_request refreshToken accessToken =
     \<lparr>method = ''POST'', url = ''/auth/refresh'',
      body = [(''refreshToken'', refreshToken), (''accessToken'', accessToken)],
      contentType = ''application/json'', Authorization = None, retry = False\<rparr>"

text \<open>
  The try block of the response interceptor up to the two \<^verbatim>\<open>setItem\<close> calls (lines
  64-80). \<open>Inl\<close> is the exception that reaches the catch; \<open>Inr\<close> is the new access token.
  The refresh goes through plain \<^verbatim>\<open>axios.post\<close>, not through the instance: no
  interceptor sees it. Destructuring a body without the two token fields gives
  \<^verbatim>\<open>undefined\<close>, which \<^verbatim>\<open>setItem\<close> and the template string write as \<^verbatim>\<open>"undefined"\<close>.
\<close>

definition token_fields :: "payload \<Rightarrow> string \<times> string" where
  "token_fields d =
     (case d of
        TokenData accessToken refreshToken \<Rightarrow> (accessToken, refreshToken)
      | _ \<Rightarrow> (''undefined'', ''undefined''))"

definition refresh_tokens :: "'a browser_scheme \<Rightarrow> (error + string) \<times> 'a browser_scheme" where
  "refresh_tokens w =
     (let refreshToken = localStorage w ''refreshToken'';
          accessToken = localStorage w ''accessToken'' in
      if \<not> truthy refreshToken \<or> \<not> truthy accessToken then
        (Inl (Error ''No tokens available''), w)
      else
        let (r, rest) = next_reply (replies w);
            w1 = w\<lparr>replies := rest,
                   net_log := net_log w @ [RefreshCall (the refreshToken) (the accessToken)]\<rparr> in
        case settle (refresh_request (the refreshToken) (the accessToken)) r of
          Inl refreshError \<Rightarrow> (Inl refreshError, w1)
        | Inr resp \<Rightarrow>
            let (newAccessToken, newRefreshToken) = token_fields (data resp) in
            (Inr newAccessToken,
             w1\<lparr>localStorage := (localStorage w1)
                   (''accessToken'' \<mapsto> newAccessToken, ''refreshToken'' \<mapsto> newRefreshToken)\<rparr>))"

definition err_status :: "error \<Rightarrow> nat option" where
  "err_status e =
     (case e of
        AxiosError _ (Some resp) \<Rightarrow> Some (status resp)
      | _ \<Rightarrow> None)"

text \<open>
  A call through \<^verbatim>\<open>axiosInstance\<close>: request interceptor, adapter, response interceptor
  (lines 55-93). The retried request is a call of the instance again, so both
  interceptors run on it; the recursion ends because the retried configuration has its
  flag set.
\<close>

function axiosInstance :: "'a browser_scheme \<Rightarrow> request \<Rightarrow> (error + response) \<times> 'a browser_scheme" where
  "axiosInstance w req =
     (let config = request_interceptor w req;
          (result, w1) = dispatch w config in
      case result of
        Inr resp \<Rightarrow> (Inr resp, w1)
      | Inl err \<Rightarrow>
          if err_status err = Some 401 \<and> \<not> retry config then
            let originalRequest = config\<lparr>retry := True\<rparr>;
                (refreshed, w2) = refresh_tokens w1 in
            case refreshed of
              Inr newAccessToken \<Rightarrow>
                axiosInstance w2 (originalRequest\<lparr>Authorization := Some (Bearer newAccessToken)\<rparr>)
            | Inl refreshError \<Rightarrow>
                (Inl refreshError, w2\<lparr>localStorage := Map.empty, href := ''/''\<rparr>)
          else (Inl err, w1))"
  by pat_completeness auto

termination axiosInstance
  by (relation "measure (\<lambda>(w, req). if retry req then 0 else 1)")
     (auto simp: request_interceptor_def Let_def split: if_splits)

declare axiosInstance.simps [simp del]

definition instance_request :: "string \<Rightarrow> string \<Rightarrow> (string \<times> string) list \<Rightarrow> request" where
  "instance_request m u b =
     \<lparr>method = m, url = u, body = b, contentType = ''application/json'',
      Authorization = None, retry = False\<rparr>"

section \<open>Live feeds and view state of the Dashboard component\<close>

text \<open>
  The three streaming endpoints: \<^verbatim>\<open>${API_BASE}/alerts/sse\<close>,
  \<^verbatim>\<open>${API_BASE}/device-events/sse\<close> and \<^verbatim>\<open>${API_BASE}/sensor-data/${selectedDeviceId}/sse\<close>.
\<close>

datatype endpoint = AlertsSSE | DeviceEventsSSE | SensorSSE string

text \<open>
  An \<^verbatim>\<open>EventSource\<close> is known by the number it got when it was constructed. The feed
  log records every \<^verbatim>\<open>new EventSource(url)\<close> and every \<^verbatim>\<open>close()\<close>, newest first:
  a feed is open when it was constructed and not closed since.
\<close>

datatype feed_action = Opened nat endpoint | Closed nat

text \<open>
  The text of a server-sent event, \<^verbatim>\<open>event.data\<close>: text that is not JSON, or the text of
  a JSON value (taken at the type the handler uses it at). \<^verbatim>\<open>JSON.parse\<close> throws a
  \<^verbatim>\<open>SyntaxError\<close> on the first and returns the value of the second.
\<close>

datatype 'a event_data = NotJSON string | JSONText 'a

definition JSON_parse :: "'a event_data \<Rightarrow> error + 'a" where
  "JSON_parse d = (case d of NotJSON _ \<Rightarrow> Inl (Error ''SyntaxError'') | JSONText v \<Rightarrow> Inr v)"

text \<open>
  The state of the page: the browser, the \<^verbatim>\<open>useState\<close> cells of \<^verbatim>\<open>Dashboard\<close>, its three
  \<^verbatim>\<open>useRef\<close> cells, the \<^verbatim>\<open>error\<close> and \<^verbatim>\<open>loading\<close> cells of \<^verbatim>\<open>LoginPage\<close>, and what
  was written with \<^verbatim>\<open>console.error\<close> and shown with \<^verbatim>\<open>alert\<close>.
\<close>

record dashboard = browser +
  isAuthenticated :: bool
  user :: "User option"
  devices :: "Device list"
  selectedDeviceId :: string
  selectedSensorType :: string
  sensorTypes :: "string list"
  latestData :: "SensorData list"
  alerts :: "Alert list"
  deviceEvents :: "DeviceEvent list"
  sensorHistory :: "SensorData list"
  showAddDevice :: bool
  newDevice :: Device
  alertsSSERef :: "nat option"
  sensorSSERef :: "nat option"
  eventsSSERef :: "nat option"
  feed_log :: "feed_action list"
  login_error :: string
  loading :: bool
  console :: "string list"
  alerted :: "string list"

definition default_newDevice :: Device where
  "default_newDevice =
     \<lparr>Device.deviceId = '''', name = '''', location = '''', Device.status = ''Active'',
      type = ''TemperatureSensor'', registeredAt = None\<rparr>"

text \<open>The component as it mounts, over a given \<^verbatim>\<open>localStorage\<close> and server.\<close>

definition mount :: "(string \<rightharpoonup> string) \<Rightarrow> reply list \<Rightarrow> dashboard" where
  "mount ls rs =
     \<lparr>localStorage = ls, href = ''/'', replies = rs, net_log = [],
      isAuthenticated = False, user = None, devices = [], selectedDeviceId = '''',
      selectedSensorType = '''', sensorTypes = [], latestData = [], alerts = [],
      deviceEvents = [], sensorHistory = [], showAddDevice = False,
      newDevice = default_newDevice, alertsSSERef = None, sensorSSERef = None,
      eventsSSERef = None, feed_log = [], login_error = '''', loading = False,
      console = [], alerted = []\<rparr>"

definition console_error :: "string \<Rightarrow> dashboard \<Rightarrow> dashboard" where
  "console_error msg s = s\<lparr>console := console s @ [msg]\<rparr>"

definition window_alert :: "string \<Rightarrow> dashboard \<Rightarrow> dashboard" where
  "window_alert msg s = s\<lparr>alerted := alerted s @ [msg]\<rparr>"

subsection \<open>EventSource\<close>

definition new_EventSource :: "endpoint \<Rightarrow> dashboard \<Rightarrow> nat \<times> dashboard" where
  "new_EventSource u s =
     (let eventSource = length (feed_log s) in
      (eventSource, s\<lparr>feed_log := Opened eventSource u # feed_log s\<rparr>))"

definition es_close :: "nat \<Rightarrow> dashboard \<Rightarrow> dashboard" where
  "es_close eventSource s = s\<lparr>feed_log := Closed eventSource # feed_log s\<rparr>"

text \<open>\<^verbatim>\<open>array.slice(0, n)\<close> and \<^verbatim>\<open>array.slice(-n)\<close>.\<close>

definition slice_first :: "nat \<Rightarrow> 'a list \<Rightarrow> 'a list" where
  "slice_first n xs = take n xs"

definition slice_last :: "nat \<Rightarrow> 'a list \<Rightarrow> 'a list" where
  "slice_last n xs = drop (length xs - n) xs"

text \<open>\<^verbatim>\<open>setupAlertsSSE\<close> (lines 335-362) and its two handlers.\<close>

definition alerts_onmessage :: "Alert event_data \<Rightarrow> dashboard \<Rightarrow> dashboard" where
  "alerts_onmessage event_data s =
     (case JSON_parse event_data of
        Inr alert \<Rightarrow> s\<lparr>alerts := slice_first 50 (alert # alerts s)\<rparr>
      | Inl err \<Rightarrow> console_error ''Failed to parse alert SSE:'' s)"

definition feed_onerror :: "string \<Rightarrow> nat \<Rightarrow> dashboard \<Rightarrow> dashboard" where
  "feed_onerror msg eventSource s = es_close eventSource (console_error msg s)"

definition setupAlertsSSE :: "dashboard \<Rightarrow> dashboard" where
  "setupAlertsSSE s =
     (let token = localStorage s ''accessToken'' in
      if \<not> truthy token then s
      else
        let s1 = (case alertsSSERef s of Some current \<Rightarrow> es_close current s | None \<Rightarrow> s);
            (eventSource, s2) = new_EventSource AlertsSSE s1
        in s2\<lparr>alertsSSERef := Some eventSource\<rparr>)"

text \<open>\<^verbatim>\<open>setupEventsSSE\<close> (lines 364-391).\<close>

definition events_onmessage :: "DeviceEvent event_data \<Rightarrow> dashboard \<Rightarrow> dashboard" where
  "events_onmessage event_data s =
     (case JSON_parse event_data of
        Inr deviceEvent \<Rightarrow> s\<lparr>deviceEvents := slice_first 50 (deviceEvent # deviceEvents s)\<rparr>
      | Inl err \<Rightarrow> console_error ''Failed to parse event SSE:'' s)"

definition setupEventsSSE :: "dashboard \<Rightarrow> dashboard" where
  "setupEventsSSE s =
     (let token = localStorage s ''accessToken'' in
      if \<not> truthy token then s
      else
        let s1 = (case eventsSSERef s of Some current \<Rightarrow> es_close current s | None \<Rightarrow> s);
            (eventSource, s2) = new_EventSource DeviceEventsSSE s1
        in s2\<lparr>eventsSSERef := Some eventSource\<rparr>)"

text \<open>
  \<^verbatim>\<open>setupSensorSSE\<close> (lines 393-432). The message handler is a closure: the
  \<^verbatim>\<open>selectedSensorType\<close> it compares with is the one of the render that set the feed up,
  here its first argument.
\<close>

definition sensor_onmessage :: "string \<Rightarrow> SensorData event_data \<Rightarrow> dashboard \<Rightarrow> dashboard" where
  "sensor_onmessage selectedSensorType' event_data s =
     (case JSON_parse event_data of
        Inr sensorData \<Rightarrow>
          let s1 = s\<lparr>latestData :=
                      filter (\<lambda>d. SensorData.sensorType d \<noteq> SensorData.sensorType sensorData)
                        (latestData s) @ [sensorData]\<rparr>
          in if SensorData.sensorType sensorData = selectedSensorType'
             then s1\<lparr>sensorHistory := slice_last 100 (sensorHistory s1 @ [sensorData])\<rparr>
             else s1
      | Inl err \<Rightarrow> console_error ''Failed to parse sensor SSE:'' s)"

definition setupSensorSSE :: "dashboard \<Rightarrow> dashboard" where
  "setupSensorSSE s =
     (if selectedDeviceId s = [] then s
      else
        let token = localStorage s ''accessToken'' in
        if \<not> truthy token then s
        else
          let s1 = (case sensorSSERef s of Some current \<Rightarrow> es_close current s | None \<Rightarrow> s);
              (eventSource, s2) = new_EventSource (SensorSSE (selectedDeviceId s)) s1
          in s2\<lparr>sensorSSERef := Some eventSource\<rparr>)"

text \<open>\<^verbatim>\<open>closeSSEConnections\<close> (lines 434-447).\<close>

definition closeSSEConnections :: "dashboard \<Rightarrow> dashboard" where
  "closeSSEConnections s =
     (let s1 = (case alertsSSERef s of
                  Some current \<Rightarrow> (es_close current s)\<lparr>alertsSSERef := None\<rparr> | None \<Rightarrow> s);
          s2 = (case sensorSSERef s1 of
                  Some current \<Rightarrow> (es_close current s1)\<lparr>sensorSSERef := None\<rparr> | None \<Rightarrow> s1);
          s3 = (case eventsSSERef s2 of
                  Some current \<Rightarrow> (es_close current s2)\<lparr>eventsSSERef := None\<rparr> | None \<Rightarrow> s2)
      in s3)"



subsection \<open>Snapshot fetches\<close>

definition quoted :: "string \<Rightarrow> string" where
  "quoted s = CHR 0x22 # s @ [CHR 0x22]"

text \<open>
  \<^verbatim>\<open>JSON.stringify\<close> of the profile (strings written without escapes); a body that is
  not a profile is taken as the empty body.
\<close>

definition profile_of :: "payload \<Rightarrow> User option" where
  "profile_of d = (case d of UserData u \<Rightarrow> Some u | _ \<Rightarrow> None)"

definition JSON_stringify :: "User option \<Rightarrow> string" where
  "JSON_stringify v =
     (case v of
        None \<Rightarrow> quoted []
      | Some u \<Rightarrow>
          ''{'' @ quoted ''username'' @ '':'' @ quoted (username u) @ '','' @
          quoted ''displayName'' @ '':'' @ quoted (displayName u) @ '','' @
          quoted ''role'' @ '':'' @ quoted (role u) @ ''}'')"

text \<open>\<^verbatim>\<open>fetchUserProfile\<close> (lines 449-459).\<close>

definition fetchUserProfile :: "dashboard \<Rightarrow> dashboard" where
  "fetchUserProfile s =
     (let (result, s1) = axiosInstance s (instance_request ''GET'' ''/auth/profile'' []) in
      case result of
        Inr res \<Rightarrow>
          s1\<lparr>user := profile_of (data res),
             localStorage := (localStorage s1)(''user'' \<mapsto> JSON_stringify (profile_of (data res)))\<rparr>
      | Inl err \<Rightarrow>
          (console_error ''Failed to fetch profile:'' s1)
            \<lparr>localStorage := Map.empty, isAuthenticated := False\<rparr>)"

text \<open>
  \<^verbatim>\<open>fetchDevices\<close> (lines 461-471). The test \<^verbatim>\<open>!selectedDeviceId\<close> reads the value of the
  render that made the call.
\<close>

definition fetchDevices :: "dashboard \<Rightarrow> dashboard" where
  "fetchDevices s =
     (let (result, s1) = axiosInstance s (instance_request ''GET'' ''/devices'' []) in
      case result of
        Inr res \<Rightarrow>
          let ds = (case data res of DeviceData xs \<Rightarrow> xs | _ \<Rightarrow> []);
              s2 = s1\<lparr>devices := ds\<rparr>
          in (case ds of
                d # _ \<Rightarrow>
                  if selectedDeviceId s = [] then s2\<lparr>selectedDeviceId := Device.deviceId d\<rparr>
                  else s2
              | [] \<Rightarrow> s2)
      | Inl err \<Rightarrow> console_error ''Failed to fetch devices:'' s1)"

text \<open>\<^verbatim>\<open>Array.isArray(res.data) ? res.data : [res.data]\<close>, at the type of sensor readings.\<close>

definition as_array :: "payload \<Rightarrow> SensorData list" where
  "as_array d = (case d of SensorDataList xs \<Rightarrow> xs | SensorDatum x \<Rightarrow> [x] | _ \<Rightarrow> [])"

text \<open>\<^verbatim>\<open>[...new Set(xs)]\<close>: the first occurrence of each element, in order.\<close>

fun spread_Set :: "'a list \<Rightarrow> 'a list" where
  "spread_Set [] = []"
| "spread_Set (x # xs) = x # filter (\<lambda>y. y \<noteq> x) (spread_Set xs)"

text \<open>\<^verbatim>\<open>fetchLatestData\<close> (lines 473-492).\<close>

definition fetchLatestData :: "dashboard \<Rightarrow> dashboard" where
  "fetchLatestData s =
     (if selectedDeviceId s = [] then s
      else
        let (result, s1) =
              axiosInstance s
                (instance_request ''GET'' (''/sensor-data/'' @ selectedDeviceId s @ ''/latest'') []) in
        case result of
          Inr res \<Rightarrow>
            let dataArray = as_array (data res);
                types = spread_Set (map SensorData.sensorType dataArray);
                s2 = s1\<lparr>latestData := dataArray, sensorTypes := types\<rparr>
            in (case types of
                  t # _ \<Rightarrow> if selectedSensorType s = [] then s2\<lparr>selectedSensorType := t\<rparr> else s2
                | [] \<Rightarrow> s2)
        | Inl err \<Rightarrow> console_error ''Failed to fetch latest data:'' s1)"

text \<open>\<^verbatim>\<open>fetchRecentAlerts\<close> (lines 494-503): \<^verbatim>\<open>setAlerts(res.data || [])\<close>.\<close>

definition fetchRecentAlerts :: "dashboard \<Rightarrow> dashboard" where
  "fetchRecentAlerts s =
     (let (result, s1) = axiosInstance s (instance_request ''GET'' ''/alerts'' []) in
      case result of
        Inr res \<Rightarrow> s1\<lparr>alerts := (case data res of AlertData xs \<Rightarrow> xs | _ \<Rightarrow> [])\<rparr>
      | Inl err \<Rightarrow> (console_error ''Failed to fetch alerts:'' s1)\<lparr>alerts := []\<rparr>)"

text \<open>
  \<^verbatim>\<open>fetchRecentEvents\<close> (lines 505-519); \<open>start\<close> and \<open>endTime\<close> are the ISO strings of the
  clock reading and of seven days before it.
\<close>

definition fetchRecentEvents :: "string \<Rightarrow> string \<Rightarrow> dashboard \<Rightarrow> dashboard" where
  "fetchRecentEvents start endTime s =
     (let (result, s1) =
            axiosInstance s
              (instance_request ''GET'' (''/device-events?start='' @ start @ ''&end='' @ endTime) []) in
      case result of
        Inr res \<Rightarrow> s1\<lparr>deviceEvents := (case data res of EventData xs \<Rightarrow> xs | _ \<Rightarrow> [])\<rparr>
      | Inl err \<Rightarrow> (console_error ''Failed to fetch events:'' s1)\<lparr>deviceEvents := []\<rparr>)"

text \<open>\<^verbatim>\<open>fetchSensorHistory\<close> (lines 536-551); \<open>today\<close> is the date part of the clock reading.\<close>

definition fetchSensorHistory :: "string \<Rightarrow> dashboard \<Rightarrow> dashboard" where
  "fetchSensorHistory today s =
     (if selectedDeviceId s = [] then s
      else
        let (result, s1) =
              axiosInstance s
                (instance_request ''GET'' (''/sensor-data/'' @ selectedDeviceId s @ ''?date='' @ today) []) in
        case result of
          Inr res \<Rightarrow>
            s1\<lparr>sensorHistory :=
                 filter (\<lambda>x. SensorData.sensorType x = selectedSensorType s) (as_array (data res))\<rparr>
        | Inl err \<Rightarrow> (console_error ''Failed to fetch sensor history:'' s1)\<lparr>sensorHistory := []\<rparr>)"

subsection \<open>Effects\<close>

text \<open>The effect run once at mount (lines 280-288).\<close>

definition initialize :: "dashboard \<Rightarrow> dashboard" where
  "initialize s =
     (let auth = localStorage s ''isAuthenticated'';
          token = localStorage s ''accessToken'' in
      if auth = Some ''true'' \<and> truthy token then fetchUserProfile (s\<lparr>isAuthenticated := True\<rparr>)
      else s)"

text \<open>
  The effect on \<^verbatim>\<open>[isAuthenticated, user]\<close> that sets up the alert and event feeds (lines
  301-310); its cleanup is \<^verbatim>\<open>closeSSEConnections\<close>.
\<close>

definition feeds_effect :: "dashboard \<Rightarrow> dashboard" where
  "feeds_effect s =
     (if isAuthenticated s \<and> user s \<noteq> None then setupEventsSSE (setupAlertsSSE s) else s)"

text \<open>The effect on \<^verbatim>\<open>[selectedDeviceId, isAuthenticated]\<close> (lines 313-325) and its cleanup.\<close>

definition sensor_effect :: "dashboard \<Rightarrow> dashboard" where
  "sensor_effect s =
     (if selectedDeviceId s \<noteq> [] \<and> isAuthenticated s then fetchLatestData (setupSensorSSE s)
      else s)"

definition sensor_effect_cleanup :: "dashboard \<Rightarrow> dashboard" where
  "sensor_effect_cleanup s =
     (case sensorSSERef s of
        Some current \<Rightarrow> (es_close current s)\<lparr>sensorSSERef := None\<rparr>
      | None \<Rightarrow> s)"

text \<open>The \<^verbatim>\<open>onChange\<close> handlers of the two selectors (lines 818-822 and 839).\<close>

definition onChange_device :: "string \<Rightarrow> dashboard \<Rightarrow> dashboard" where
  "onChange_device v s = s\<lparr>selectedDeviceId := v, selectedSensorType := '''', sensorTypes := []\<rparr>"

definition onChange_sensor :: "string \<Rightarrow> dashboard \<Rightarrow> dashboard" where
  "onChange_sensor v s = s\<lparr>selectedSensorType := v\<rparr>"

text \<open>
  Selecting a device as React schedules it: the handler; then, the dependency having
  changed, the cleanup of the previous run of the sensor effect and the effect again.
\<close>

definition select_device :: "string \<Rightarrow> dashboard \<Rightarrow> dashboard" where
  "select_device v s =
     (if v = selectedDeviceId s then onChange_device v s
      else sensor_effect (sensor_effect_cleanup (onChange_device v s)))"

subsection \<open>Login, logout, adding a device\<close>

text \<open>\<^verbatim>\<open>err.response?.data?.message\<close>.\<close>

definition server_message :: "response option \<Rightarrow> string option" where
  "server_message resp =
     (case resp of
        Some r \<Rightarrow> (case data r of MessageData m \<Rightarrow> Some m | _ \<Rightarrow> None)
      | None \<Rightarrow> None)"

text \<open>The catch block of \<^verbatim>\<open>handleLogin\<close> (lines 181-192).\<close>

definition handleLogin_catch :: "error \<Rightarrow> dashboard \<Rightarrow> dashboard" where
  "handleLogin_catch err s =
     (case err of
        AxiosError _ resp \<Rightarrow>
          let st = map_option status resp;
              msg = (if truthy (server_message resp) then the (server_message resp)
                     else if st = Some 404 then ''Invalid username or password''
                     else ''Login failed, please try again.'')
          in s\<lparr>login_error := msg\<rparr>
      | Error _ \<Rightarrow> s\<lparr>login_error := ''Unexpected error occurred.''\<rparr>)"

text \<open>
  \<^verbatim>\<open>LoginPage.handleLogin\<close> (lines 159-196). \<open>onLogin\<close> is the property the page is given;
  it returns the error it threw, if any, and the state it left.
\<close>

definition handleLogin ::
  "(dashboard \<Rightarrow> error option \<times> dashboard) \<Rightarrow> string \<Rightarrow> string \<Rightarrow> dashboard \<Rightarrow> dashboard" where
  "handleLogin onLogin username' password' s =
     (let s0 = s\<lparr>login_error := '''', loading := True\<rparr>;
          (result, s1) =
            axiosInstance s0
              (instance_request ''POST'' ''/auth/login''
                 [(''username'', username'), (''password'', password')]);
          s2 = (case result of
                  Inr response \<Rightarrow>
                    if status response = 200 \<and> data response \<noteq> NoData then
                      let (accessToken, refreshToken) = token_fields (data response);
                          s3 = s1\<lparr>localStorage := (localStorage s1)
                                  (''accessToken'' \<mapsto> accessToken,
                                   ''refreshToken'' \<mapsto> refreshToken,
                                   ''isAuthenticated'' \<mapsto> ''true'')\<rparr>
                      in (case onLogin s3 of
                            (None, s4) \<Rightarrow> s4
                          | (Some err, s4) \<Rightarrow> handleLogin_catch err s4)
                    else s1\<lparr>login_error := ''Unexpected response from server.''\<rparr>
                | Inl err \<Rightarrow> handleLogin_catch err s1)
      in s2\<lparr>loading := False\<rparr>)"

text \<open>\<^verbatim>\<open>handleLoginSuccess\<close> (lines 562-565), the \<open>onLogin\<close> that \<^verbatim>\<open>Dashboard\<close> passes.\<close>

definition handleLoginSuccess :: "dashboard \<Rightarrow> error option \<times> dashboard" where
  "handleLoginSuccess s = (None, fetchUserProfile (s\<lparr>isAuthenticated := True\<rparr>))"

text \<open>\<^verbatim>\<open>handleLogout\<close> (lines 567-578).\<close>

definition handleLogout :: "dashboard \<Rightarrow> dashboard" where
  "handleLogout s =
     (let (result, s1) = axiosInstance s (instance_request ''POST'' ''/auth/logout'' []);
          s2 = (case result of
                  Inr _ \<Rightarrow> s1
                | Inl err \<Rightarrow> console_error ''Logout error:'' s1);
          s3 = closeSSEConnections s2
      in s3\<lparr>localStorage := Map.empty, isAuthenticated := False, user := None\<rparr>)"

text \<open>The five \<^verbatim>\<open>formData.append\<close> calls of \<^verbatim>\<open>handleAddDevice\<close>.\<close>

definition new_device_form :: "Device \<Rightarrow> (string \<times> string) list" where
  "new_device_form d =
     [(''deviceId'', Device.deviceId d), (''name'', name d), (''location'', location d),
      (''type'', type d), (''status'', Device.status d)]"

text \<open>
  \<^verbatim>\<open>handleAddDevice\<close> (lines 580-622). \<^verbatim>\<open>fetchDevices()\<close> is called without \<^verbatim>\<open>await\<close>; it
  and the three statements after it write different cells, so it is run here where it is
  called.
\<close>

definition handleAddDevice :: "dashboard \<Rightarrow> dashboard" where
  "handleAddDevice s =
     (if Device.deviceId (newDevice s) = [] \<or> name (newDevice s) = [] \<or> location (newDevice s) = []
      then window_alert ''Please fill all required fields'' s
      else
        let formData = new_device_form (newDevice s);
            (result, s1) =
              axiosInstance s
                ((instance_request ''POST'' ''/devices'' formData)
                   \<lparr>contentType := ''multipart/form-data''\<rparr>) in
        case result of
          Inr response \<Rightarrow>
            if status response = 204 then
              window_alert ''Device added successfully!''
                ((fetchDevices s1)\<lparr>newDevice := default_newDevice, showAddDevice := False\<rparr>)
            else s1
        | Inl err \<Rightarrow>
            (case err of
               AxiosError _ resp \<Rightarrow>
                 let st = map_option status resp in
                 if st = Some 409 then window_alert ''Device ID already exists!'' s1
                 else if st = Some 403 then
                   window_alert ''You do not have permission to add devices!'' s1
                 else window_alert ''Failed to add device!'' s1
             | Error _ \<Rightarrow> s1))"


subsection \<open>The page as a transition system\<close>

text \<open>
  Everything that can happen to the mounted page: an effect or a cleanup that React
  runs, a handler the user triggers, a message or an error on a feed, the completion of a
  fetch. React decides the order; the properties below hold for every order.
  \<open>EditNewDevice\<close> stands for the \<^verbatim>\<open>onChange\<close> handlers of the five fields of the form
  (lines 1161-1197), \<open>ShowAddDevice\<close> for the buttons that open and close the panel.
\<close>

datatype op =
    Initialize
  | FeedsEffect
  | FeedsCleanup
  | SensorEffect
  | SensorCleanup
  | SelectDevice string
  | ChangeSensor string
  | AlertMessage "Alert event_data"
  | EventMessage "DeviceEvent event_data"
  | SensorMessage string "SensorData event_data"
  | FeedError nat
  | FetchDevices
  | FetchLatestData
  | FetchRecentAlerts
  | FetchRecentEvents string string
  | FetchSensorHistory string
  | Login string string
  | Logout
  | EditNewDevice Device
  | ShowAddDevice bool
  | AddDevice

text \<open>The feeds open after a log (newest action first), with their endpoints.\<close>

fun live :: "feed_action list \<Rightarrow> (nat \<times> endpoint) list" where
  "live [] = []"
| "live (Opened i u # older) = (i, u) # live older"
| "live (Closed i # older) = filter (\<lambda>(j, u). j \<noteq> i) (live older)"

fun is_sensor :: "endpoint \<Rightarrow> bool" where
  "is_sensor (SensorSSE _) = True"
| "is_sensor _ = False"

definition open_feeds :: "dashboard \<Rightarrow> (nat \<times> endpoint) list" where
  "open_feeds s = live (feed_log s)"

definition sensor_feeds :: "feed_action list \<Rightarrow> (nat \<times> endpoint) list" where
  "sensor_feeds acts = filter (\<lambda>(i, u). is_sensor u) (live acts)"

text \<open>The largest number of sensor feeds that were ever open together during a log.\<close>

fun peak_sensor_feeds :: "feed_action list \<Rightarrow> nat" where
  "peak_sensor_feeds [] = 0"
| "peak_sensor_feeds (a # older) = max (length (sensor_feeds (a # older))) (peak_sensor_feeds older)"

text \<open>
  An error event reaches the \<^verbatim>\<open>onerror\<close> handler of a feed that is open; each of the three
  handlers logs and closes its own \<^verbatim>\<open>eventSource\<close>.
\<close>

definition onerror_text :: "endpoint \<Rightarrow> string" where
  "onerror_text u =
     (case u of
        AlertsSSE \<Rightarrow> ''Alerts SSE error:''
      | DeviceEventsSSE \<Rightarrow> ''Events SSE error:''
      | SensorSSE _ \<Rightarrow> ''Sensor SSE error:'')"

fun step :: "op \<Rightarrow> dashboard \<Rightarrow> dashboard" where
  "step Initialize s = initialize s"
| "step FeedsEffect s = feeds_effect s"
| "step FeedsCleanup s = closeSSEConnections s"
| "step SensorEffect s = sensor_effect s"
| "step SensorCleanup s = sensor_effect_cleanup s"
| "step (SelectDevice v) s = select_device v s"
| "step (ChangeSensor v) s = onChange_sensor v s"
| "step (AlertMessage d) s = alerts_onmessage d s"
| "step (EventMessage d) s = events_onmessage d s"
| "step (SensorMessage t d) s = sensor_onmessage t d s"
| "step (FeedError i) s =
     (case map_of (open_feeds s) i of
        Some u \<Rightarrow> feed_onerror (onerror_text u) i s
      | None \<Rightarrow> s)"
| "step FetchDevices s = fetchDevices s"
| "step FetchLatestData s = fetchLatestData s"
| "step FetchRecentAlerts s = fetchRecentAlerts s"
| "step (FetchRecentEvents start endTime) s = fetchRecentEvents start endTime s"
| "step (FetchSensorHistory today) s = fetchSensorHistory today s"
| "step (Login u p) s = handleLogin handleLoginSuccess u p s"
| "step Logout s = handleLogout s"
| "step (EditNewDevice d) s = s\<lparr>newDevice := d\<lparr>registeredAt := None\<rparr>\<rparr>"
| "step (ShowAddDevice b) s = s\<lparr>showAddDevice := b\<rparr>"
| "step AddDevice s = handleAddDevice s"

definition run :: "op list \<Rightarrow> dashboard \<Rightarrow> dashboard" where
  "run ops s = fold step ops s"

subsection \<open>Measures used by the properties\<close>

fun is_refresh :: "net_call \<Rightarrow> bool" where
  "is_refresh (RefreshCall _ _) = True"
| "is_refresh (InstanceCall _) = False"

definition refresh_count :: "'a browser_scheme \<Rightarrow> nat" where
  "refresh_count w = length (filter is_refresh (net_log w))"

definition instance_count :: "'a browser_scheme \<Rightarrow> nat" where
  "instance_count w = length (filter (\<lambda>c. \<not> is_refresh c) (net_log w))"

text \<open>A reply whose snapshot fits the buffer it is for.\<close>

definition snapshot_fits :: "reply \<Rightarrow> bool" where
  "snapshot_fits r =
     (case r of
        Reply _ (AlertData xs) \<Rightarrow> length xs \<le> 50
      | Reply _ (EventData xs) \<Rightarrow> length xs \<le> 50
      | Reply _ (SensorDataList xs) \<Rightarrow> length xs \<le> 100
      | _ \<Rightarrow> True)"





text \<open>
  What a call through the client may change of a state: the four cells of the browser,
  the replies only by using them up.
\<close>

definition browser_step :: "'a browser_scheme \<Rightarrow> 'a browser_scheme \<Rightarrow> bool" where
  "browser_step w w' \<longleftrightarrow>
     (\<exists>l h r n. w' = w\<lparr>localStorage := l, href := h, replies := r, net_log := n\<rparr> \<and>
       set r \<subseteq> set (replies w))"

subsection \<open>Ownership of the feeds\<close>

fun is_alerts :: "endpoint \<Rightarrow> bool" where
  "is_alerts AlertsSSE = True"
| "is_alerts _ = False"

fun is_events :: "endpoint \<Rightarrow> bool" where
  "is_events DeviceEventsSSE = True"
| "is_events _ = False"

text \<open>The open feeds of one kind, by number.\<close>

definition feed_ids :: "(endpoint \<Rightarrow> bool) \<Rightarrow> feed_action list \<Rightarrow> nat list" where
  "feed_ids P acts = map fst (filter (\<lambda>(i, u). P u) (live acts))"

text \<open>A reference cell owns the feeds of its kind: none is open but the one it holds.\<close>

definition owned :: "nat option \<Rightarrow> nat list \<Rightarrow> bool" where
  "owned ref ids \<longleftrightarrow> set ids \<subseteq> set_option ref \<and> length ids \<le> 1"

definition feeds_owned :: "dashboard \<Rightarrow> bool" where
  "feeds_owned s \<longleftrightarrow>
     owned (alertsSSERef s) (feed_ids is_alerts (feed_log s)) \<and>
     owned (eventsSSERef s) (feed_ids is_events (feed_log s)) \<and>
     owned (sensorSSERef s) (feed_ids is_sensor (feed_log s)) \<and>
     peak_sensor_feeds (feed_log s) \<le> 1"

text \<open>The cells the feeds live in.\<close>

definition feed_view :: "dashboard \<Rightarrow> feed_action list \<times> nat option \<times> nat option \<times> nat option" where
  "feed_view s = (feed_log s, alertsSSERef s, eventsSSERef s, sensorSSERef s)"

subsection \<open>The bounded buffers\<close>

definition buffers_ok :: "dashboard \<Rightarrow> bool" where
  "buffers_ok s \<longleftrightarrow>
     (\<forall>r \<in> set (replies s). snapshot_fits r) \<and>
     length (alerts s) \<le> 50 \<and> length (deviceEvents s) \<le> 50 \<and> length (sensorHistory s) \<le> 100"

text \<open>A step that leaves the three buffers alone and only uses replies up.\<close>

definition neutral :: "dashboard \<Rightarrow> dashboard \<Rightarrow> bool" where
  "neutral s s' \<longleftrightarrow>
     alerts s' = alerts s \<and> deviceEvents s' = deviceEvents s \<and>
     sensorHistory s' = sensorHistory s \<and> set (replies s') \<subseteq> set (replies s)"

subsection \<open>Notions used for login and for adding a device\<close>



text \<open>The device was created: the call resolved with status 204.\<close>

definition created :: "error + response \<Rightarrow> bool" where
  "created result = (case result of Inr response \<Rightarrow> status response = 204 | Inl _ \<Rightarrow> False)"

text \<open>The number of \<^verbatim>\<open>GET /devices\<close> calls made so far.\<close>

fun is_devices_get :: "net_call \<Rightarrow> bool" where
  "is_devices_get (InstanceCall q) = (method q = ''GET'' \<and> url q = ''/devices'')"
| "is_devices_get (RefreshCall _ _) = False"

definition devices_fetches :: "dashboard \<Rightarrow> nat" where
  "devices_fetches s = length (filter is_devices_get (net_log s))"

text \<open>The request \<^verbatim>\<open>handleAddDevice\<close> posts for a form.\<close>

definition add_device_request :: "Device \<Rightarrow> request" where
  "add_device_request d =
     (instance_request ''POST'' ''/devices'' (new_device_form d))
       \<lparr>contentType := ''multipart/form-data''\<rparr>"


text \<open>A logged call that is a refresh, or goes to the method and URL of a given request.\<close>

definition same_target :: "request \<Rightarrow> net_call \<Rightarrow> bool" where
  "same_target req c \<longleftrightarrow>
     (case c of RefreshCall _ _ \<Rightarrow> True | InstanceCall q \<Rightarrow> method q = method req \<and> url q = url req)"

subsection \<open>Concrete sessions used to exercise the properties\<close>

text \<open>A stored session, a browser over a given store and server, and a request.\<close>

definition stored_session :: "string \<rightharpoonup> string" where
  "stored_session =
     [''accessToken'' \<mapsto> ''a1'', ''refreshToken'' \<mapsto> ''r1'', ''isAuthenticated'' \<mapsto> ''true'']"

definition example_browser :: "(string \<rightharpoonup> string) \<Rightarrow> reply list \<Rightarrow> browser" where
  "example_browser ls rs = \<lparr>localStorage = ls, href = ''/dashboard'', replies = rs, net_log = []\<rparr>"

definition get_devices :: request where
  "get_devices = instance_request ''GET'' ''/devices'' []"

text \<open>A browser without tokens whose server answers 401.\<close>

definition logged_out_browser :: browser where
  "logged_out_browser = example_browser Map.empty [Reply 401 NoData]"

text \<open>The profile of the user who logs in.\<close>

definition example_user :: User where
  "example_user = \<lparr>username = ''ann'', displayName = ''Ann'', role = ''Editor''\<rparr>"

text \<open>A server that accepts the login, sends the profile and has no readings yet.\<close>

definition friendly_replies :: "reply list" where
  "friendly_replies =
     [Reply 200 (TokenData ''a1'' ''r1''), Reply 200 (UserData example_user),
      Reply 200 (SensorDataList []), Reply 200 (SensorDataList [])]"

text \<open>Login, the feeds effect, and device A selected.\<close>

definition watching_A :: "op list" where
  "watching_A = [Login ''ann'' ''pw'', FeedsEffect, SelectDevice ''A'']"

text \<open>An alert as the feed sends it.\<close>

definition example_alert :: Alert where
  "example_alert =
     \<lparr>Alert.deviceId = ''A'', Alert.timestamp = ''2025-01-01T00:00:00Z'', sensorType = ''temperature'',
      message = ''too hot'', severity = ''high'', Alert.value = 99\<rparr>"

text \<open>The same friendly server, with 51 alerts in its snapshot.\<close>

definition crowded_replies :: "reply list" where
  "crowded_replies =
     [Reply 200 (TokenData ''a1'' ''r1''), Reply 200 (UserData example_user),
      Reply 200 (SensorDataList []), Reply 200 (AlertData (replicate 51 example_alert))]"

text \<open>A device to add.\<close>

definition thermometer :: Device where
  "thermometer =
     \<lparr>Device.deviceId = ''T-1'', name = ''Thermometer'', location = ''Lab'',
      Device.status = ''Active'', type = ''TemperatureSensor'', registeredAt = None\<rparr>"

text \<open>The form filled in on a logged-in page, and a server that refuses or accepts the device.\<close>

definition filling_form :: "op list" where
  "filling_form = watching_A @ [ShowAddDevice True, EditNewDevice thermometer]"

definition conflict_replies :: "reply list" where
  "conflict_replies = take 3 friendly_replies @ [Reply 409 NoData]"

definition accepting_replies :: "reply list" where
  "accepting_replies =
     take 3 friendly_replies @ [Reply 204 NoData, Reply 200 (DeviceData [thermometer])]"

section \<open>Properties of the request gateway\<close>

lemma retry_request_interceptor [simp]: "retry (request_interceptor w req) = retry req"
  by (simp add: request_interceptor_def Let_def)

lemma set_next_reply: "set (snd (next_reply rs)) \<subseteq> set rs"
  by (auto simp: next_reply_def split: list.splits)

lemma settle_Inr_mem:
  "settle config (fst (next_reply rs)) = Inr res \<Longrightarrow> Reply (status res) (data res) \<in> set rs"
  by (auto simp: settle_def next_reply_def split: list.splits reply.splits if_splits)

lemma browser_stepI:
  "w' = w\<lparr>localStorage := l, href := h, replies := r, net_log := n\<rparr> \<Longrightarrow>
   set r \<subseteq> set (replies w) \<Longrightarrow> browser_step w w'"
  unfolding browser_step_def by blast

lemma browser_step_refl [simp]: "browser_step w w"
  by (rule browser_stepI [where l = "localStorage w" and h = "href w" and r = "replies w"
        and n = "net_log w"]) simp_all

lemma browser_step_trans: "browser_step w w1 \<Longrightarrow> browser_step w1 w2 \<Longrightarrow> browser_step w w2"
proof -
  assume a: "browser_step w w1" and b: "browser_step w1 w2"
  from a obtain l h r n where
    1: "w1 = w\<lparr>localStorage := l, href := h, replies := r, net_log := n\<rparr>"
       "set r \<subseteq> set (replies w)"
    unfolding browser_step_def by blast
  from b obtain l' h' r' n' where
    2: "w2 = w1\<lparr>localStorage := l', href := h', replies := r', net_log := n'\<rparr>"
       "set r' \<subseteq> set (replies w1)"
    unfolding browser_step_def by blast
  show ?thesis
    by (rule browser_stepI [where l = l' and h = h' and r = r' and n = n']) (use 1 2 in simp_all)
qed

lemma browser_step_dispatch: "dispatch w config = (res, w1) \<Longrightarrow> browser_step w w1"
  by (rule browser_stepI [where l = "localStorage w" and h = "href w" and r = "replies w1"
        and n = "net_log w1"])
     (use set_next_reply [of "replies w"] in \<open>auto simp: dispatch_def split: prod.splits\<close>)

lemma dispatch_Inr_mem:
  "dispatch w config = (Inr x, w1) \<Longrightarrow> Reply (status x) (data x) \<in> set (replies w)"
  using settle_Inr_mem [of config "replies w" x]
  by (auto simp: dispatch_def split: prod.splits)

lemma browser_step_refresh_tokens: "refresh_tokens w = (res, w1) \<Longrightarrow> browser_step w w1"
  by (rule browser_stepI [where l = "localStorage w1" and h = "href w" and r = "replies w1"
        and n = "net_log w1"])
     (use set_next_reply [of "replies w"] in
       \<open>auto simp: refresh_tokens_def Let_def split: prod.splits sum.splits if_splits\<close>)

lemma browser_step_clear:
  "browser_step w w1 \<Longrightarrow> browser_step w (w1\<lparr>localStorage := m, href := h\<rparr>)"
proof -
  assume a: "browser_step w w1"
  have "browser_step w1 (w1\<lparr>localStorage := m, href := h\<rparr>)"
    by (rule browser_stepI [where l = m and h = h and r = "replies w1" and n = "net_log w1"])
       simp_all
  with a show ?thesis by (rule browser_step_trans)
qed

lemma axiosInstance_retried:
  "retry req \<Longrightarrow> axiosInstance w req = dispatch w (request_interceptor w req)"
  by (subst axiosInstance.simps) (simp add: Let_def split: prod.splits sum.splits)

text \<open>The gateway unfolded once, the retried call being a plain dispatch.\<close>

lemma axiosInstance_unfold:
  assumes "dispatch w (request_interceptor w req) = (result, w1)"
  shows "axiosInstance w req =
     (case result of
        Inr resp \<Rightarrow> (Inr resp, w1)
      | Inl err \<Rightarrow>
          if err_status err = Some 401 \<and> \<not> retry req then
            (case refresh_tokens w1 of
               (Inr newAccessToken, w2) \<Rightarrow>
                 dispatch w2 (request_interceptor w2
                   ((request_interceptor w req)
                      \<lparr>retry := True, Authorization := Some (Bearer newAccessToken)\<rparr>))
             | (Inl refreshError, w2) \<Rightarrow>
                 (Inl refreshError, w2\<lparr>localStorage := Map.empty, href := ''/''\<rparr>))
          else (Inl err, w1))"
  using assms
  by (subst axiosInstance.simps)
     (auto simp: Let_def axiosInstance_retried split: prod.splits sum.splits)

lemma axiosInstance_frame:
  assumes "axiosInstance w req = (res, w')"
  shows "browser_step w w'" and "res = Inr x \<Longrightarrow> Reply (status x) (data x) \<in> set (replies w)"
proof -
  obtain result w1 where d: "dispatch w (request_interceptor w req) = (result, w1)"
    by (cases "dispatch w (request_interceptor w req)")
  note s1 = browser_step_dispatch [OF d]
  obtain refreshed w2 where r: "refresh_tokens w1 = (refreshed, w2)"
    by (cases "refresh_tokens w1")
  note s2 = browser_step_trans [OF s1 browser_step_refresh_tokens [OF r]]
  show "browser_step w w'"
  proof (cases result)
    case (Inr resp)
    with assms d s1 show ?thesis by (simp add: axiosInstance_unfold [OF d])
  next
    case (Inl err)
    show ?thesis
    proof (cases refreshed)
      case (Inl refreshError)
      with assms d r s1 s2 \<open>result = Inl err\<close> browser_step_clear [OF s2] show ?thesis
        by (auto simp: axiosInstance_unfold [OF d] split: if_splits)
    next
      case (Inr tok)
      obtain res3 w3 where d3:
        "dispatch w2 (request_interceptor w2
           ((request_interceptor w req)\<lparr>retry := True, Authorization := Some (Bearer tok)\<rparr>))
         = (res3, w3)"
        by (cases "dispatch w2 (request_interceptor w2
           ((request_interceptor w req)\<lparr>retry := True, Authorization := Some (Bearer tok)\<rparr>))")
      from browser_step_trans [OF s2 browser_step_dispatch [OF d3]]
      have "browser_step w w3" .
      with assms d r s1 d3 \<open>result = Inl err\<close> Inr show ?thesis
        by (auto simp: axiosInstance_unfold [OF d] split: if_splits)
    qed
  qed
  show "res = Inr x \<Longrightarrow> Reply (status x) (data x) \<in> set (replies w)"
  proof -
    assume rx: "res = Inr x"
    show ?thesis
    proof (cases result)
      case (Inr resp)
      with assms d rx dispatch_Inr_mem [of w "request_interceptor w req" x w1] show ?thesis
        by (simp add: axiosInstance_unfold [OF d])
    next
      case (Inl err)
      show ?thesis
      proof (cases refreshed)
        case (Inl refreshError)
        with assms d r rx \<open>result = Inl err\<close> show ?thesis
          by (auto simp: axiosInstance_unfold [OF d] split: if_splits)
      next
        case (Inr tok)
        have sub: "set (replies w2) \<subseteq> set (replies w)"
          using s2 unfolding browser_step_def by auto
        from assms d r rx \<open>result = Inl err\<close> Inr
        have "dispatch w2 (request_interceptor w2
                ((request_interceptor w req)\<lparr>retry := True, Authorization := Some (Bearer tok)\<rparr>))
              = (Inr x, w')"
          by (auto simp: axiosInstance_unfold [OF d] split: if_splits)
        from dispatch_Inr_mem [OF this] sub show ?thesis by blast
      qed
    qed
  qed
qed

lemma refresh_count_dispatch: "refresh_count (snd (dispatch w config)) = refresh_count w"
  by (simp add: dispatch_def refresh_count_def split: prod.splits)

lemma instance_count_dispatch: "instance_count (snd (dispatch w config)) = instance_count w + 1"
  by (simp add: dispatch_def instance_count_def split: prod.splits)

lemma counts_refresh_tokens:
  "refresh_count w \<le> refresh_count (snd (refresh_tokens w))"
  "refresh_count (snd (refresh_tokens w)) \<le> refresh_count w + 1"
  "instance_count (snd (refresh_tokens w)) = instance_count w"
  by (simp_all add: refresh_tokens_def refresh_count_def instance_count_def Let_def
        split: prod.splits sum.splits)

lemma counts_clear [simp]:
  "refresh_count (w\<lparr>localStorage := m, href := h\<rparr>) = refresh_count w"
  "instance_count (w\<lparr>localStorage := m, href := h\<rparr>) = instance_count w"
  by (simp_all add: refresh_count_def instance_count_def)

text \<open>
  C1. One call through the gateway makes at most one refresh attempt, whatever the server
  replies: the number of refresh calls in the log grows by at most one, by none when the
  request already carries the retried flag, and the request itself is sent at most twice
  (once when it carries the flag). The refresh is a plain call, outside the interceptors,
  so it is counted here and can start no refresh of its own.
\<close>

theorem gateway_refreshes_at_most_once:
  "refresh_count w \<le> refresh_count (snd (axiosInstance w req)) \<and>
   refresh_count (snd (axiosInstance w req)) \<le> refresh_count w + (if retry req then 0 else 1) \<and>
   instance_count (snd (axiosInstance w req)) \<le> instance_count w + (if retry req then 1 else 2)"
proof -
  obtain result w1 where d: "dispatch w (request_interceptor w req) = (result, w1)"
    by (cases "dispatch w (request_interceptor w req)")
  have c1: "refresh_count w1 = refresh_count w" "instance_count w1 = instance_count w + 1"
    using refresh_count_dispatch [of w "request_interceptor w req"]
      instance_count_dispatch [of w "request_interceptor w req"] d by simp_all
  obtain refreshed w2 where r: "refresh_tokens w1 = (refreshed, w2)"
    by (cases "refresh_tokens w1")
  have c2: "refresh_count w \<le> refresh_count w2" "refresh_count w2 \<le> refresh_count w + 1"
    "instance_count w2 = instance_count w + 1"
    using counts_refresh_tokens [of w1] r c1 by simp_all
  show ?thesis
    using c1 c2 r
    by (auto simp: axiosInstance_unfold [OF d] refresh_count_dispatch instance_count_dispatch
          split: sum.splits)
qed

text \<open>
  A session whose every call is answered 401, except the refresh: one refresh, the
  request sent twice, and the second 401 handed to the caller.
\<close>

theorem gateway_refreshes_at_most_once_witness:
  "refresh_count (snd (axiosInstance
      (example_browser stored_session
         [Reply 401 NoData, Reply 200 (TokenData ''a2'' ''r2''), Reply 401 NoData, Reply 401 NoData])
      get_devices)) = 1
   \<and> instance_count (snd (axiosInstance
      (example_browser stored_session
         [Reply 401 NoData, Reply 200 (TokenData ''a2'' ''r2''), Reply 401 NoData, Reply 401 NoData])
      get_devices)) = 2"
  using gateway_refreshes_at_most_once [of "example_browser stored_session
         [Reply 401 NoData, Reply 200 (TokenData ''a2'' ''r2''), Reply 401 NoData, Reply 401 NoData]"
         get_devices]
  by code_simp

lemma next_reply_Cons [simp]: "next_reply (r # rs) = (r, rs)"
  by (simp add: next_reply_def)

lemma settle_401 [simp]:
  "settle config (Reply 401 d) = Inl (AxiosError config (Some \<lparr>status = 401, data = d\<rparr>))"
  by (simp add: settle_def)

lemma err_status_AxiosError [simp]:
  "err_status (AxiosError config (Some resp)) = Some (status resp)"
  "err_status (AxiosError config None) = None"
  "err_status (Error m) = None"
  by (simp_all add: err_status_def)

text \<open>
  C2. A request that is answered 401 while both tokens are stored, and whose refresh call
  is answered with a 2xx: the token pair of that answer is written to
  \<^verbatim>\<open>localStorage\<close>, the request is sent exactly once more, flagged and carrying the new
  access token as bearer, and what the caller gets is what that second sending settles
  to. The log shows the three calls and nothing else.
\<close>

theorem refresh_success_retries_once:
  assumes "\<not> retry req"
    and "replies w = Reply 401 d # Reply st tokens # rest"
    and "200 \<le> st" and "st < 300"
    and "token_fields tokens = (newAccessToken, newRefreshToken)"
    and "localStorage w ''refreshToken'' = Some refreshToken" and "refreshToken \<noteq> []"
    and "localStorage w ''accessToken'' = Some accessToken" and "accessToken \<noteq> []"
  shows "axiosInstance w req =
     (let sent = req\<lparr>Authorization := Some (Bearer accessToken)\<rparr>;
          retried = req\<lparr>Authorization := Some (Bearer newAccessToken), retry := True\<rparr>
      in (settle retried (fst (next_reply rest)),
          w\<lparr>localStorage := (localStorage w)
                (''accessToken'' \<mapsto> newAccessToken, ''refreshToken'' \<mapsto> newRefreshToken),
            replies := snd (next_reply rest),
            net_log := net_log w @
              [InstanceCall sent, RefreshCall refreshToken accessToken, InstanceCall retried]\<rparr>))"
proof -
  let ?config = "req\<lparr>Authorization := Some (Bearer accessToken)\<rparr>"
  have ri: "request_interceptor w req = ?config"
    using assms by (simp add: request_interceptor_def truthy_def)
  let ?w1 = "w\<lparr>replies := Reply st tokens # rest,
                 net_log := net_log w @ [InstanceCall ?config]\<rparr>"
  have d: "dispatch w (request_interceptor w req)
            = (Inl (AxiosError ?config (Some \<lparr>status = 401, data = d\<rparr>)), ?w1)"
    using assms by (simp add: ri dispatch_def)
  let ?w2 = "w\<lparr>localStorage := (localStorage w)
                (''accessToken'' \<mapsto> newAccessToken, ''refreshToken'' \<mapsto> newRefreshToken),
              replies := rest,
              net_log := net_log w @ [InstanceCall ?config, RefreshCall refreshToken accessToken]\<rparr>"
  have r: "refresh_tokens ?w1 = (Inr newAccessToken, ?w2)"
    using assms by (simp add: refresh_tokens_def truthy_def settle_def Let_def)
  let ?retried = "req\<lparr>Authorization := Some (Bearer newAccessToken), retry := True\<rparr>"
  have ri2: "request_interceptor ?w2 (req\<lparr>retry := True, Authorization := Some (Bearer newAccessToken)\<rparr>)
              = ?retried"
    by (simp add: request_interceptor_def truthy_def)
  show ?thesis
    using assms(1)
    by (simp add: axiosInstance_unfold [OF d] r ri ri2 Let_def)
       (simp add: dispatch_def split: prod.splits)
qed

text \<open>The scenario of the specification: 401, refresh succeeds, the retry succeeds.\<close>

theorem refresh_success_retries_once_witness:
  "axiosInstance
     (example_browser stored_session
        [Reply 401 NoData, Reply 200 (TokenData ''a2'' ''r2''), Reply 200 (DeviceData [])])
     get_devices =
   (Inr \<lparr>status = 200, data = DeviceData []\<rparr>,
    \<lparr>localStorage = stored_session(''accessToken'' \<mapsto> ''a2'', ''refreshToken'' \<mapsto> ''r2''),
     href = ''/dashboard'', replies = [],
     net_log =
       [InstanceCall (get_devices\<lparr>Authorization := Some ''Bearer a1''\<rparr>),
        RefreshCall ''r1'' ''a1'',
        InstanceCall (get_devices\<lparr>Authorization := Some ''Bearer a2'', retry := True\<rparr>)]\<rparr>)"
  using refresh_success_retries_once [where req = get_devices
      and w = "example_browser stored_session
        [Reply 401 NoData, Reply 200 (TokenData ''a2'' ''r2''), Reply 200 (DeviceData [])]"
      and d = NoData and st = 200 and tokens = "TokenData ''a2'' ''r2''"
      and newAccessToken = "''a2''" and newRefreshToken = "''r2''"
      and rest = "[Reply 200 (DeviceData [])]" and refreshToken = "''r1''" and accessToken = "''a1''"]
  by (simp add: example_browser_def stored_session_def get_devices_def instance_request_def
        Bearer_def settle_def token_fields_def Let_def)

text \<open>
  C3 as stated does not hold: with no tokens stored, the request is answered 401 (the
  original error, as the adapter rejects it), and what the caller gets is the error of the
  failed refresh attempt, \<^verbatim>\<open>Error("No tokens available")\<close>.
\<close>

theorem refresh_failure_error_counterexample:
  "fst (dispatch logged_out_browser (request_interceptor logged_out_browser get_devices))
     = Inl (AxiosError get_devices (Some \<lparr>status = 401, data = NoData\<rparr>)) \<and>
   fst (axiosInstance logged_out_browser get_devices) = Inl (Error ''No tokens available'')"
  by code_simp

text \<open>
  C3, amended. A request not yet retried that is answered 401, and whose refresh attempt
  fails because a stored token is missing or because the refresh call is rejected:
  \<^verbatim>\<open>localStorage\<close> is cleared, the location is set to \<^verbatim>\<open>/\<close>, and the caller gets the
  error of the refresh attempt (\<^verbatim>\<open>No tokens available\<close>, or the rejection of the refresh
  call), which is never the original 401 error.
\<close>

theorem refresh_failure_clears_session:
  assumes "\<not> retry req"
    and "replies w = Reply 401 d # rest"
    and "\<not> truthy (localStorage w ''refreshToken'') \<or> \<not> truthy (localStorage w ''accessToken'') \<or>
         isl (settle (refresh_request (the (localStorage w ''refreshToken''))
                (the (localStorage w ''accessToken''))) (fst (next_reply rest)))"
  shows "fst (axiosInstance w req) =
           Inl (if \<not> truthy (localStorage w ''refreshToken'') \<or> \<not> truthy (localStorage w ''accessToken'')
                then Error ''No tokens available''
                else projl (settle (refresh_request (the (localStorage w ''refreshToken''))
                       (the (localStorage w ''accessToken''))) (fst (next_reply rest)))) \<and>
         localStorage (snd (axiosInstance w req)) = Map.empty \<and>
         href (snd (axiosInstance w req)) = ''/'' \<and>
         fst (axiosInstance w req) \<noteq>
           Inl (AxiosError (request_interceptor w req) (Some \<lparr>status = 401, data = d\<rparr>))"
proof -
  let ?config = "request_interceptor w req"
  let ?w1 = "w\<lparr>replies := rest, net_log := net_log w @ [InstanceCall ?config]\<rparr>"
  have d: "dispatch w ?config = (Inl (AxiosError ?config (Some \<lparr>status = 401, data = d\<rparr>)), ?w1)"
    using assms by (simp add: dispatch_def)
  show ?thesis
  proof (cases "\<not> truthy (localStorage w ''refreshToken'') \<or> \<not> truthy (localStorage w ''accessToken'')")
    case True
    then have "refresh_tokens ?w1 = (Inl (Error ''No tokens available''), ?w1)"
      by (auto simp: refresh_tokens_def)
    with True assms(1) show ?thesis
      by (simp add: axiosInstance_unfold [OF d])
  next
    case False
    let ?rr = "refresh_request (the (localStorage w ''refreshToken'')) (the (localStorage w ''accessToken''))"
    from False assms(3) have rej: "isl (settle ?rr (fst (next_reply rest)))"
      by blast
    then obtain e where e: "settle ?rr (fst (next_reply rest)) = Inl e"
      by (auto simp: isl_def)
    then obtain resp where shape: "e = AxiosError ?rr resp"
      by (auto simp: settle_def split: reply.splits if_splits)
    have "Authorization ?config \<noteq> None"
      using False by (simp add: request_interceptor_def)
    moreover have "Authorization ?rr = None"
      by (simp add: refresh_request_def)
    ultimately have "?rr \<noteq> ?config" by metis
    with shape have ne: "e \<noteq> AxiosError ?config (Some \<lparr>status = 401, data = d\<rparr>)"
      by simp
    have "\<exists>w2. refresh_tokens ?w1 = (Inl e, w2)"
      by (cases "next_reply rest") (use False e in \<open>simp add: refresh_tokens_def Let_def\<close>)
    then obtain w2 where "refresh_tokens ?w1 = (Inl e, w2)" by blast
    with False assms(1) e ne show ?thesis
      by (simp add: axiosInstance_unfold [OF d])
  qed
qed

text \<open>The refresh call rejected with 403: the session is cleared and the 403 is what the caller sees.\<close>

theorem refresh_failure_clears_session_witness:
  "fst (axiosInstance
     (example_browser stored_session [Reply 401 NoData, Reply 403 (MessageData ''expired'')])
     get_devices) =
     Inl (AxiosError (refresh_request ''r1'' ''a1'')
           (Some \<lparr>status = 403, data = MessageData ''expired''\<rparr>)) \<and>
   localStorage (snd (axiosInstance
     (example_browser stored_session [Reply 401 NoData, Reply 403 (MessageData ''expired'')])
     get_devices)) = Map.empty \<and>
   href (snd (axiosInstance
     (example_browser stored_session [Reply 401 NoData, Reply 403 (MessageData ''expired'')])
     get_devices)) = ''/''"
  using refresh_failure_clears_session [of get_devices
      "example_browser stored_session [Reply 401 NoData, Reply 403 (MessageData ''expired'')]"
      NoData "[Reply 403 (MessageData ''expired'')]"]
  by (simp add: example_browser_def stored_session_def get_devices_def instance_request_def
        settle_def truthy_def)

lemma gateway_call:
  "\<exists>res l h r n.
     axiosInstance w req = (res, w\<lparr>localStorage := l, href := h, replies := r, net_log := n\<rparr>) \<and>
     set r \<subseteq> set (replies w) \<and>
     (\<forall>x. res = Inr x \<longrightarrow> Reply (status x) (data x) \<in> set (replies w))"
proof -
  obtain res w' where a: "axiosInstance w req = (res, w')"
    by (cases "axiosInstance w req")
  from axiosInstance_frame(1) [OF a] obtain l h r n where
    "w' = w\<lparr>localStorage := l, href := h, replies := r, net_log := n\<rparr>" "set r \<subseteq> set (replies w)"
    unfolding browser_step_def by blast
  with a axiosInstance_frame(2) [OF a] show ?thesis by blast
qed

section \<open>Properties of the live feeds\<close>

lemma feed_ids_simps [simp]:
  "feed_ids P [] = []"
  "feed_ids P (Closed i # acts) = filter (\<lambda>j. j \<noteq> i) (feed_ids P acts)"
  "feed_ids P (Opened i u # acts) = (if P u then i # feed_ids P acts else feed_ids P acts)"
  by (simp_all add: feed_ids_def filter_map comp_def case_prod_unfold conj_commute)

lemma length_sensor_feeds: "length (sensor_feeds acts) = length (feed_ids is_sensor acts)"
  by (simp add: sensor_feeds_def feed_ids_def)

lemma owned_simps [simp]:
  "owned ref []"
  "owned (Some i) [i]"
  "owned None ids \<longleftrightarrow> ids = []"
  by (auto simp: owned_def)

lemma owned_close: "owned ref ids \<Longrightarrow> owned ref (filter (\<lambda>j. j \<noteq> i) ids)"
  by (auto simp: owned_def intro: le_trans [OF length_filter_le])

lemma owned_close_own: "owned (Some i) ids \<Longrightarrow> filter (\<lambda>j. j \<noteq> i) ids = []"
  by (auto simp: owned_def filter_empty_conv)

lemma owned_length: "owned ref ids \<Longrightarrow> length ids \<le> Suc 0"
  by (simp add: owned_def)

lemma peak_Cons:
  "peak_sensor_feeds (a # acts) \<le> Suc 0 \<longleftrightarrow>
     length (feed_ids is_sensor (a # acts)) \<le> Suc 0 \<and> peak_sensor_feeds acts \<le> Suc 0"
  by (simp add: length_sensor_feeds)

lemma feeds_owned_es_close: "feeds_owned s \<Longrightarrow> feeds_owned (es_close i s)"
  by (auto simp: feeds_owned_def es_close_def peak_Cons length_sensor_feeds owned_close
      simp del: peak_sensor_feeds.simps dest: owned_length intro: le_trans [OF length_filter_le])

lemma feeds_owned_setupSensorSSE: "feeds_owned s \<Longrightarrow> feeds_owned (setupSensorSSE s)"
  by (auto simp: feeds_owned_def setupSensorSSE_def es_close_def new_EventSource_def Let_def
        peak_Cons owned_close owned_close_own
      simp del: peak_sensor_feeds.simps split: option.splits)

lemma feeds_owned_setupAlertsSSE: "feeds_owned s \<Longrightarrow> feeds_owned (setupAlertsSSE s)"
  by (auto simp: feeds_owned_def setupAlertsSSE_def es_close_def new_EventSource_def Let_def
        peak_Cons owned_close owned_close_own
      simp del: peak_sensor_feeds.simps split: option.splits dest: owned_length 
      intro: le_trans [OF length_filter_le])

lemma feeds_owned_setupEventsSSE: "feeds_owned s \<Longrightarrow> feeds_owned (setupEventsSSE s)"
  by (auto simp: feeds_owned_def setupEventsSSE_def es_close_def new_EventSource_def Let_def
        peak_Cons owned_close owned_close_own
      simp del: peak_sensor_feeds.simps split: option.splits dest: owned_length 
      intro: le_trans [OF length_filter_le])

lemma feeds_owned_sensor_effect_cleanup: "feeds_owned s \<Longrightarrow> feeds_owned (sensor_effect_cleanup s)"
  by (auto simp: feeds_owned_def sensor_effect_cleanup_def es_close_def 
        peak_Cons owned_close owned_close_own
      simp del: peak_sensor_feeds.simps split: option.splits)


lemma gateway_keeps [simp]:
  fixes s :: dashboard
  shows "isAuthenticated (snd (axiosInstance s req)) = isAuthenticated s"
    and "user (snd (axiosInstance s req)) = user s"
    and "devices (snd (axiosInstance s req)) = devices s"
    and "selectedDeviceId (snd (axiosInstance s req)) = selectedDeviceId s"
    and "selectedSensorType (snd (axiosInstance s req)) = selectedSensorType s"
    and "sensorTypes (snd (axiosInstance s req)) = sensorTypes s"
    and "latestData (snd (axiosInstance s req)) = latestData s"
    and "alerts (snd (axiosInstance s req)) = alerts s"
    and "deviceEvents (snd (axiosInstance s req)) = deviceEvents s"
    and "sensorHistory (snd (axiosInstance s req)) = sensorHistory s"
    and "showAddDevice (snd (axiosInstance s req)) = showAddDevice s"
    and "newDevice (snd (axiosInstance s req)) = newDevice s"
    and "alertsSSERef (snd (axiosInstance s req)) = alertsSSERef s"
    and "sensorSSERef (snd (axiosInstance s req)) = sensorSSERef s"
    and "eventsSSERef (snd (axiosInstance s req)) = eventsSSERef s"
    and "feed_log (snd (axiosInstance s req)) = feed_log s"
    and "login_error (snd (axiosInstance s req)) = login_error s"
    and "loading (snd (axiosInstance s req)) = loading s"
    and "console (snd (axiosInstance s req)) = console s"
    and "alerted (snd (axiosInstance s req)) = alerted s"
  using gateway_call [of s req] by auto

lemma feed_view_gateway [simp]: "feed_view (snd (axiosInstance s req)) = feed_view s"
  by (simp add: feed_view_def)

lemma feed_view_updates [simp]:
  "feed_view (s\<lparr>localStorage := l\<rparr>) = feed_view s"
  "feed_view (s\<lparr>isAuthenticated := b\<rparr>) = feed_view s"
  "feed_view (s\<lparr>user := u\<rparr>) = feed_view s"
  "feed_view (s\<lparr>devices := ds\<rparr>) = feed_view s"
  "feed_view (s\<lparr>selectedDeviceId := v\<rparr>) = feed_view s"
  "feed_view (s\<lparr>selectedSensorType := v\<rparr>) = feed_view s"
  "feed_view (s\<lparr>sensorTypes := ts\<rparr>) = feed_view s"
  "feed_view (s\<lparr>latestData := xs\<rparr>) = feed_view s"
  "feed_view (s\<lparr>alerts := as\<rparr>) = feed_view s"
  "feed_view (s\<lparr>deviceEvents := es\<rparr>) = feed_view s"
  "feed_view (s\<lparr>sensorHistory := xs\<rparr>) = feed_view s"
  "feed_view (s\<lparr>showAddDevice := b\<rparr>) = feed_view s"
  "feed_view (s\<lparr>newDevice := d\<rparr>) = feed_view s"
  "feed_view (s\<lparr>login_error := m\<rparr>) = feed_view s"
  "feed_view (s\<lparr>loading := b\<rparr>) = feed_view s"
  "feed_view (s\<lparr>console := c\<rparr>) = feed_view s"
  "feed_view (s\<lparr>alerted := c\<rparr>) = feed_view s"
  by (simp_all add: feed_view_def)

lemma feed_view_console_error [simp]: "feed_view (console_error m s) = feed_view s"
  by (simp add: console_error_def)

lemma feed_view_window_alert [simp]: "feed_view (window_alert m s) = feed_view s"
  by (simp add: window_alert_def)

lemma feeds_owned_view: "feed_view s' = feed_view s \<Longrightarrow> feeds_owned s' = feeds_owned s"
  by (simp add: feed_view_def feeds_owned_def)

lemma feed_view_fetchUserProfile [simp]: "feed_view (fetchUserProfile s) = feed_view s"
  by (simp add: fetchUserProfile_def case_prod_unfold Let_def split: sum.splits)

lemma feed_view_fetchDevices [simp]: "feed_view (fetchDevices s) = feed_view s"
  by (simp add: fetchDevices_def case_prod_unfold Let_def split: sum.splits list.splits)

lemma feed_view_fetchLatestData [simp]: "feed_view (fetchLatestData s) = feed_view s"
  by (simp add: fetchLatestData_def case_prod_unfold Let_def split: sum.splits list.splits)

lemma feed_view_fetchRecentAlerts [simp]: "feed_view (fetchRecentAlerts s) = feed_view s"
  by (simp add: fetchRecentAlerts_def case_prod_unfold Let_def split: sum.splits)

lemma feed_view_fetchRecentEvents [simp]: "feed_view (fetchRecentEvents a b s) = feed_view s"
  by (simp add: fetchRecentEvents_def case_prod_unfold Let_def split: sum.splits)

lemma feed_view_fetchSensorHistory [simp]: "feed_view (fetchSensorHistory t s) = feed_view s"
  by (simp add: fetchSensorHistory_def case_prod_unfold Let_def split: sum.splits)

lemma feed_view_handleLogin_catch [simp]: "feed_view (handleLogin_catch e s) = feed_view s"
  by (simp add: handleLogin_catch_def Let_def split: error.splits)

lemma feed_view_handleLogin [simp]:
  "feed_view (handleLogin handleLoginSuccess u p s) = feed_view s"
  by (simp add: handleLogin_def handleLoginSuccess_def case_prod_unfold Let_def split: sum.splits)

lemma feed_view_handleAddDevice [simp]: "feed_view (handleAddDevice s) = feed_view s"
  by (simp add: handleAddDevice_def case_prod_unfold Let_def split: sum.splits error.splits)

lemma feed_view_messages [simp]:
  "feed_view (alerts_onmessage a s) = feed_view s"
  "feed_view (events_onmessage e s) = feed_view s"
  "feed_view (sensor_onmessage t d s) = feed_view s"
  by (simp_all add: alerts_onmessage_def events_onmessage_def sensor_onmessage_def Let_def
        split: sum.splits)


lemma close_alerts:
  assumes "feeds_owned s"
  defines "s' \<equiv> (case alertsSSERef s of
                   Some current \<Rightarrow> (es_close current s)\<lparr>alertsSSERef := None\<rparr> | None \<Rightarrow> s)"
  shows "feeds_owned s'" and "feed_ids is_alerts (feed_log s') = []" and "alertsSSERef s' = None"
    and "eventsSSERef s' = eventsSSERef s" and "sensorSSERef s' = sensorSSERef s"
    and "feed_ids P (feed_log s) = [] \<Longrightarrow> feed_ids P (feed_log s') = []"
  using assms(1) unfolding s'_def
  by (auto simp: feeds_owned_def es_close_def peak_Cons owned_close owned_close_own
      simp del: peak_sensor_feeds.simps split: option.splits dest: owned_length
      intro: le_trans [OF length_filter_le])

lemma close_sensor:
  assumes "feeds_owned s"
  defines "s' \<equiv> (case sensorSSERef s of
                   Some current \<Rightarrow> (es_close current s)\<lparr>sensorSSERef := None\<rparr> | None \<Rightarrow> s)"
  shows "feeds_owned s'" and "feed_ids is_sensor (feed_log s') = []" and "sensorSSERef s' = None"
    and "eventsSSERef s' = eventsSSERef s" and "alertsSSERef s' = alertsSSERef s"
    and "feed_ids P (feed_log s) = [] \<Longrightarrow> feed_ids P (feed_log s') = []"
  using assms(1) unfolding s'_def
  by (auto simp: feeds_owned_def es_close_def peak_Cons owned_close owned_close_own
      simp del: peak_sensor_feeds.simps split: option.splits dest: owned_length
      intro: le_trans [OF length_filter_le])

lemma close_events:
  assumes "feeds_owned s"
  defines "s' \<equiv> (case eventsSSERef s of
                   Some current \<Rightarrow> (es_close current s)\<lparr>eventsSSERef := None\<rparr> | None \<Rightarrow> s)"
  shows "feeds_owned s'" and "feed_ids is_events (feed_log s') = []" and "eventsSSERef s' = None"
    and "alertsSSERef s' = alertsSSERef s" and "sensorSSERef s' = sensorSSERef s"
    and "feed_ids P (feed_log s) = [] \<Longrightarrow> feed_ids P (feed_log s') = []"
  using assms(1) unfolding s'_def
  by (auto simp: feeds_owned_def es_close_def peak_Cons owned_close owned_close_own
      simp del: peak_sensor_feeds.simps split: option.splits dest: owned_length
      intro: le_trans [OF length_filter_le])

lemma live_empty:
  "feed_ids is_alerts acts = [] \<Longrightarrow> feed_ids is_events acts = [] \<Longrightarrow>
   feed_ids is_sensor acts = [] \<Longrightarrow> live acts = []"
proof (rule ccontr)
  assume a: "feed_ids is_alerts acts = []" "feed_ids is_events acts = []"
    "feed_ids is_sensor acts = []" and ne: "live acts \<noteq> []"
  then obtain i u where m: "(i, u) \<in> set (live acts)"
    by (cases "live acts") auto
  show False
  proof (cases u)
    case AlertsSSE
    with m have "i \<in> set (feed_ids is_alerts acts)" by (force simp: feed_ids_def)
    with a show False by simp
  next
    case DeviceEventsSSE
    with m have "i \<in> set (feed_ids is_events acts)" by (force simp: feed_ids_def)
    with a show False by simp
  next
    case (SensorSSE d)
    with m have "i \<in> set (feed_ids is_sensor acts)" by (force simp: feed_ids_def)
    with a show False by simp
  qed
qed

lemma closeSSEConnections_closes_all:
  assumes "feeds_owned s"
  shows "feeds_owned (closeSSEConnections s)"
    and "open_feeds (closeSSEConnections s) = []"
    and "alertsSSERef (closeSSEConnections s) = None"
    and "eventsSSERef (closeSSEConnections s) = None"
    and "sensorSSERef (closeSSEConnections s) = None"
proof -
  define s1 where "s1 = (case alertsSSERef s of
      Some current \<Rightarrow> (es_close current s)\<lparr>alertsSSERef := None\<rparr> | None \<Rightarrow> s)"
  define s2 where "s2 = (case sensorSSERef s1 of
      Some current \<Rightarrow> (es_close current s1)\<lparr>sensorSSERef := None\<rparr> | None \<Rightarrow> s1)"
  define s3 where "s3 = (case eventsSSERef s2 of
      Some current \<Rightarrow> (es_close current s2)\<lparr>eventsSSERef := None\<rparr> | None \<Rightarrow> s2)"
  have eq: "closeSSEConnections s = s3"
    by (simp only: closeSSEConnections_def Let_def s1_def s2_def s3_def)
  note a = close_alerts [OF assms, folded s1_def]
  note b = close_sensor [OF a(1), folded s2_def]
  note c = close_events [OF b(1), folded s3_def]
  show "feeds_owned (closeSSEConnections s)" using c(1) eq by simp
  have "feed_ids is_alerts (feed_log s3) = []" using a(2) b(6) c(6) by blast
  moreover have "feed_ids is_sensor (feed_log s3) = []" using b(2) c(6) by blast
  moreover note c(2)
  ultimately show "open_feeds (closeSSEConnections s) = []"
    unfolding open_feeds_def eq by (intro live_empty)
  show "alertsSSERef (closeSSEConnections s) = None" using a(3) b(5) c(4) eq by simp
  show "eventsSSERef (closeSSEConnections s) = None" using c(3) eq by simp
  show "sensorSSERef (closeSSEConnections s) = None" using b(3) c(5) eq by simp
qed

lemmas feeds_owned_closeSSEConnections = closeSSEConnections_closes_all(1)

lemma feeds_owned_keeps [simp]:
  "feeds_owned (onChange_sensor v s) = feeds_owned s"
  "feeds_owned (alerts_onmessage a s) = feeds_owned s"
  "feeds_owned (events_onmessage e s) = feeds_owned s"
  "feeds_owned (sensor_onmessage t d s) = feeds_owned s"
  "feeds_owned (fetchDevices s) = feeds_owned s"
  "feeds_owned (fetchLatestData s) = feeds_owned s"
  "feeds_owned (fetchRecentAlerts s) = feeds_owned s"
  "feeds_owned (fetchRecentEvents start endTime s) = feeds_owned s"
  "feeds_owned (fetchSensorHistory today s) = feeds_owned s"
  "feeds_owned (handleLogin handleLoginSuccess u p s) = feeds_owned s"
  "feeds_owned (handleAddDevice s) = feeds_owned s"
  "feeds_owned (s\<lparr>newDevice := nd\<rparr>) = feeds_owned s"
  "feeds_owned (s\<lparr>showAddDevice := b\<rparr>) = feeds_owned s"
  "feeds_owned (s\<lparr>isAuthenticated := b\<rparr>) = feeds_owned s"
  "feeds_owned (s\<lparr>localStorage := l\<rparr>) = feeds_owned s"
  "feeds_owned (s\<lparr>user := usr\<rparr>) = feeds_owned s"
  "feeds_owned (fetchUserProfile s) = feeds_owned s"
  "feeds_owned (console_error m s) = feeds_owned s"
  "feeds_owned (onChange_device v s) = feeds_owned s"
  by (rule feeds_owned_view, simp add: onChange_sensor_def onChange_device_def)+

lemma feeds_owned_feeds_effect: "feeds_owned s \<Longrightarrow> feeds_owned (feeds_effect s)"
  by (simp add: feeds_effect_def feeds_owned_setupAlertsSSE feeds_owned_setupEventsSSE)

lemma feeds_owned_sensor_effect: "feeds_owned s \<Longrightarrow> feeds_owned (sensor_effect s)"
  by (simp add: sensor_effect_def feeds_owned_setupSensorSSE)

lemma feeds_owned_select_device: "feeds_owned s \<Longrightarrow> feeds_owned (select_device v s)"
  by (simp add: select_device_def feeds_owned_sensor_effect feeds_owned_sensor_effect_cleanup)

lemma feeds_owned_initialize: "feeds_owned s \<Longrightarrow> feeds_owned (initialize s)"
  by (simp add: initialize_def Let_def)

lemma feeds_owned_feed_onerror: "feeds_owned s \<Longrightarrow> feeds_owned (feed_onerror m i s)"
  by (simp add: feed_onerror_def feeds_owned_es_close)

lemma feeds_owned_handleLogout: "feeds_owned s \<Longrightarrow> feeds_owned (handleLogout s)"
proof -
  assume a: "feeds_owned s"
  let ?s1 = "snd (axiosInstance s (instance_request ''POST'' ''/auth/logout'' []))"
  let ?s2 = "case fst (axiosInstance s (instance_request ''POST'' ''/auth/logout'' [])) of
               Inr _ \<Rightarrow> ?s1 | Inl err \<Rightarrow> console_error ''Logout error:'' ?s1"
  have "feed_view ?s2 = feed_view s" by (simp split: sum.splits)
  from feeds_owned_view [OF this] a have "feeds_owned ?s2" by simp
  then have "feeds_owned (closeSSEConnections ?s2)" by (rule feeds_owned_closeSSEConnections)
  then show ?thesis
    by (simp add: handleLogout_def Let_def case_prod_unfold)
qed

lemma feeds_owned_step: "feeds_owned s \<Longrightarrow> feeds_owned (step a s)"
  by (cases a)
     (simp_all add: feeds_owned_initialize feeds_owned_feeds_effect
        feeds_owned_closeSSEConnections feeds_owned_sensor_effect feeds_owned_sensor_effect_cleanup
        feeds_owned_select_device feeds_owned_feed_onerror feeds_owned_handleLogout
        split: option.splits)

lemma feeds_owned_run: "feeds_owned s \<Longrightarrow> feeds_owned (run ops s)"
  unfolding run_def by (induction ops arbitrary: s) (simp_all add: feeds_owned_step)

lemma feeds_owned_mount: "feeds_owned (mount ls rs)"
  by (simp add: feeds_owned_def mount_def)


lemma sensor_feeds_empty: "sensor_feeds acts = [] \<longleftrightarrow> feed_ids is_sensor acts = []"
  by (simp add: sensor_feeds_def feed_ids_def)

lemma sensor_feeds_Opened:
  "sensor_feeds (Opened n (SensorSSE v) # acts) = (n, SensorSSE v) # sensor_feeds acts"
  by (simp add: sensor_feeds_def)

lemma feed_log_fetchLatestData [simp]: "feed_log (fetchLatestData s) = feed_log s"
  using feed_view_fetchLatestData [of s] by (simp add: feed_view_def)

lemma select_device_opens:
  assumes "feeds_owned s" and "isAuthenticated s" and "truthy (localStorage s ''accessToken'')"
    and "v \<noteq> []" and "v \<noteq> selectedDeviceId s"
  shows "map snd (sensor_feeds (feed_log (select_device v s))) = [SensorSSE v]"
proof -
  define s0 where "s0 = onChange_device v s"
  have o0: "feeds_owned s0" using assms(1) by (simp add: s0_def)
  define s1 where "s1 = (case sensorSSERef s0 of
      Some current \<Rightarrow> (es_close current s0)\<lparr>sensorSSERef := None\<rparr> | None \<Rightarrow> s0)"
  note c = close_sensor [OF o0, folded s1_def]
  have s1: "sensor_effect_cleanup s0 = s1"
    by (simp only: sensor_effect_cleanup_def s1_def)
  have keep: "selectedDeviceId s1 = v" "isAuthenticated s1" "truthy (localStorage s1 ''accessToken'')"
    using assms by (auto simp: s1_def s0_def onChange_device_def es_close_def split: option.splits)
  have "sensor_feeds (feed_log s1) = []"
    using c(2) by (simp add: sensor_feeds_empty)
  then have "map snd (sensor_feeds (feed_log (setupSensorSSE s1))) = [SensorSSE v]"
    using keep c(3) assms(4)
    by (simp add: setupSensorSSE_def new_EventSource_def Let_def sensor_feeds_Opened)
  then have "map snd (sensor_feeds (feed_log (sensor_effect s1))) = [SensorSSE v]"
    using keep assms(4) by (simp add: sensor_effect_def)
  then show ?thesis
    using assms(5) by (simp add: select_device_def s1 [symmetric] s0_def)
qed

text \<open>
  C5. Whatever happens to the mounted page, in whatever order (device selections,
  effects and cleanups, feed errors, fetches, login, logout), there was never a moment
  with two sensor feeds open: the peak over the whole feed log, which records every
  single \<^verbatim>\<open>close()\<close> and \<^verbatim>\<open>new EventSource\<close>, is at most one. And selecting another device
  in an authenticated page with a stored token leaves exactly one sensor feed open, the
  one of the device selected.
\<close>

theorem at_most_one_sensor_feed:
  "peak_sensor_feeds (feed_log (run ops (mount ls rs))) \<le> 1 \<and>
   (isAuthenticated (run ops (mount ls rs)) \<and>
    truthy (localStorage (run ops (mount ls rs)) ''accessToken'') \<and>
    deviceB \<noteq> [] \<and> deviceB \<noteq> selectedDeviceId (run ops (mount ls rs)) \<longrightarrow>
    map snd (sensor_feeds (feed_log (select_device deviceB (run ops (mount ls rs)))))
      = [SensorSSE deviceB])"
proof -
  have o: "feeds_owned (run ops (mount ls rs))"
    by (rule feeds_owned_run [OF feeds_owned_mount])
  then have "peak_sensor_feeds (feed_log (run ops (mount ls rs))) \<le> 1"
    by (simp add: feeds_owned_def)
  with select_device_opens [OF o] show ?thesis by blast
qed

text \<open>Device A is being watched, then device B is selected: one feed before, one after.\<close>

theorem at_most_one_sensor_feed_witness:
  "map snd (sensor_feeds (feed_log (run watching_A (mount Map.empty friendly_replies))))
     = [SensorSSE ''A''] \<and>
   map snd (sensor_feeds (feed_log
      (select_device ''B'' (run watching_A (mount Map.empty friendly_replies)))))
     = [SensorSSE ''B''] \<and>
   peak_sensor_feeds (feed_log (run watching_A (mount Map.empty friendly_replies))) \<le> 1"
  using at_most_one_sensor_feed [where ops = watching_A and ls = Map.empty
      and rs = friendly_replies and deviceB = "''B''"]
  by code_simp

text \<open>
  C6. In every state the page can reach, and whatever the server answers to the logout
  call (also nothing at all), after \<^verbatim>\<open>handleLogout\<close> no feed is open, the three reference
  cells are empty, \<^verbatim>\<open>localStorage\<close> is empty, and the page is logged out.
\<close>

theorem logout_tears_down_session:
  assumes "s = (run ops (mount ls rs))\<lparr>replies := logout_replies\<rparr>"
  shows "open_feeds (handleLogout s) = [] \<and>
         alertsSSERef (handleLogout s) = None \<and> eventsSSERef (handleLogout s) = None \<and>
         sensorSSERef (handleLogout s) = None \<and>
         localStorage (handleLogout s) = Map.empty \<and>
         \<not> isAuthenticated (handleLogout s) \<and> user (handleLogout s) = None"
proof -
  have "feeds_owned (run ops (mount ls rs))"
    by (rule feeds_owned_run [OF feeds_owned_mount])
  then have o: "feeds_owned s"
    using assms by (simp add: feeds_owned_def)
  let ?s1 = "snd (axiosInstance s (instance_request ''POST'' ''/auth/logout'' []))"
  let ?s2 = "case fst (axiosInstance s (instance_request ''POST'' ''/auth/logout'' [])) of
               Inr _ \<Rightarrow> ?s1 | Inl err \<Rightarrow> console_error ''Logout error:'' ?s1"
  have "feed_view ?s2 = feed_view s" by (simp split: sum.splits)
  from feeds_owned_view [OF this] o have "feeds_owned ?s2" by simp
  note c = closeSSEConnections_closes_all [OF this]
  have eq: "handleLogout s =
     (closeSSEConnections ?s2)\<lparr>localStorage := Map.empty, isAuthenticated := False, user := None\<rparr>"
    by (simp add: handleLogout_def Let_def case_prod_unfold)
  show ?thesis
    unfolding eq using c by (simp add: open_feeds_def)
qed


text \<open>Three feeds are open and the logout call gets no answer: everything is torn down all the same.\<close>

theorem logout_tears_down_session_witness:
  "length (open_feeds (run watching_A (mount Map.empty friendly_replies))) = 3 \<and>
   open_feeds (handleLogout ((run watching_A (mount Map.empty friendly_replies))\<lparr>replies := [NoReply]\<rparr>)) = [] \<and>
   localStorage (handleLogout ((run watching_A (mount Map.empty friendly_replies))\<lparr>replies := [NoReply]\<rparr>))
     = Map.empty \<and>
   \<not> isAuthenticated (handleLogout ((run watching_A (mount Map.empty friendly_replies))\<lparr>replies := [NoReply]\<rparr>))"
proof -
  have "length (open_feeds (run watching_A (mount Map.empty friendly_replies))) = 3"
    by code_simp
  with logout_tears_down_session [where ops = watching_A and ls = Map.empty
      and rs = friendly_replies and logout_replies = "[NoReply]", OF refl]
  show ?thesis by blast
qed

section \<open>Properties of the buffers\<close>

lemma neutral_refl [simp]: "neutral s s"
  by (simp add: neutral_def)

lemma neutral_updates [simp]:
  "neutral s (x\<lparr>localStorage := l\<rparr>) = neutral s x"
  "neutral s (x\<lparr>href := h\<rparr>) = neutral s x"
  "neutral s (x\<lparr>net_log := n\<rparr>) = neutral s x"
  "neutral s (x\<lparr>isAuthenticated := b\<rparr>) = neutral s x"
  "neutral s (x\<lparr>user := u\<rparr>) = neutral s x"
  "neutral s (x\<lparr>devices := ds\<rparr>) = neutral s x"
  "neutral s (x\<lparr>selectedDeviceId := v\<rparr>) = neutral s x"
  "neutral s (x\<lparr>selectedSensorType := v\<rparr>) = neutral s x"
  "neutral s (x\<lparr>sensorTypes := ts\<rparr>) = neutral s x"
  "neutral s (x\<lparr>latestData := xs\<rparr>) = neutral s x"
  "neutral s (x\<lparr>showAddDevice := b\<rparr>) = neutral s x"
  "neutral s (x\<lparr>newDevice := d\<rparr>) = neutral s x"
  "neutral s (x\<lparr>alertsSSERef := r1\<rparr>) = neutral s x"
  "neutral s (x\<lparr>sensorSSERef := r2\<rparr>) = neutral s x"
  "neutral s (x\<lparr>eventsSSERef := r3\<rparr>) = neutral s x"
  "neutral s (x\<lparr>feed_log := fl\<rparr>) = neutral s x"
  "neutral s (x\<lparr>login_error := m\<rparr>) = neutral s x"
  "neutral s (x\<lparr>loading := b\<rparr>) = neutral s x"
  "neutral s (x\<lparr>console := c\<rparr>) = neutral s x"
  "neutral s (x\<lparr>alerted := c\<rparr>) = neutral s x"
  by (simp_all add: neutral_def)

lemma neutral_gateway [simp]: "neutral s x \<Longrightarrow> neutral s (snd (axiosInstance x req))"
  using gateway_call [of x req] by (auto simp: neutral_def)

lemma neutral_basic [simp]:
  "neutral s x \<Longrightarrow> neutral s (console_error m x)"
  "neutral s x \<Longrightarrow> neutral s (window_alert m x)"
  "neutral s x \<Longrightarrow> neutral s (es_close i x)"
  "neutral s x \<Longrightarrow> neutral s (snd (new_EventSource u x))"
  "neutral s x \<Longrightarrow> neutral s (onChange_device v x)"
  "neutral s x \<Longrightarrow> neutral s (onChange_sensor v x)"
  "neutral s x \<Longrightarrow> neutral s (handleLogin_catch e x)"
  by (simp_all add: console_error_def window_alert_def es_close_def new_EventSource_def Let_def
        onChange_device_def onChange_sensor_def handleLogin_catch_def split: error.splits)

lemma neutral_setups [simp]:
  "neutral s x \<Longrightarrow> neutral s (setupAlertsSSE x)"
  "neutral s x \<Longrightarrow> neutral s (setupEventsSSE x)"
  "neutral s x \<Longrightarrow> neutral s (setupSensorSSE x)"
  "neutral s x \<Longrightarrow> neutral s (sensor_effect_cleanup x)"
  "neutral s x \<Longrightarrow> neutral s (feed_onerror m i x)"
  by (simp_all add: setupAlertsSSE_def setupEventsSSE_def setupSensorSSE_def
        sensor_effect_cleanup_def feed_onerror_def Let_def case_prod_unfold split: option.splits)

lemma neutral_closeSSEConnections [simp]:
  "neutral s x \<Longrightarrow> neutral s (closeSSEConnections x)"
  by (simp add: closeSSEConnections_def Let_def split: option.splits)

lemma neutral_fetchUserProfile [simp]: "neutral s x \<Longrightarrow> neutral s (fetchUserProfile x)"
  by (simp add: fetchUserProfile_def Let_def case_prod_unfold split: sum.splits)

lemma neutral_fetchDevices [simp]: "neutral s x \<Longrightarrow> neutral s (fetchDevices x)"
  by (simp add: fetchDevices_def Let_def case_prod_unfold split: sum.splits list.splits)

lemma neutral_fetchLatestData [simp]: "neutral s x \<Longrightarrow> neutral s (fetchLatestData x)"
  by (simp add: fetchLatestData_def Let_def case_prod_unfold split: sum.splits list.splits)

lemma neutral_effects [simp]:
  "neutral s x \<Longrightarrow> neutral s (initialize x)"
  "neutral s x \<Longrightarrow> neutral s (feeds_effect x)"
  "neutral s x \<Longrightarrow> neutral s (sensor_effect x)"
  "neutral s x \<Longrightarrow> neutral s (select_device v x)"
  by (simp_all add: initialize_def feeds_effect_def sensor_effect_def select_device_def Let_def)

lemma neutral_handleLogin [simp]:
  "neutral s x \<Longrightarrow> neutral s (handleLogin handleLoginSuccess u p x)"
  by (simp add: handleLogin_def handleLoginSuccess_def Let_def case_prod_unfold split: sum.splits)

lemma neutral_handleLogout [simp]: "neutral s x \<Longrightarrow> neutral s (handleLogout x)"
  by (simp add: handleLogout_def Let_def case_prod_unfold split: sum.splits)

lemma neutral_handleAddDevice [simp]: "neutral s x \<Longrightarrow> neutral s (handleAddDevice x)"
  by (simp add: handleAddDevice_def Let_def case_prod_unfold split: sum.splits error.splits)

lemma buffers_ok_neutral: "buffers_ok s \<Longrightarrow> neutral s s' \<Longrightarrow> buffers_ok s'"
  by (auto simp: buffers_ok_def neutral_def)


lemma gateway_fits:
  assumes "\<forall>r \<in> set (replies s). snapshot_fits r"
  shows "\<forall>r \<in> set (replies (snd (axiosInstance s req))). snapshot_fits r"
    and "fst (axiosInstance s req) = Inr res \<Longrightarrow> snapshot_fits (Reply (status res) (data res))"
  using gateway_call [of s req] assms by auto

lemma buffers_ok_messages:
  "buffers_ok s \<Longrightarrow> buffers_ok (alerts_onmessage a s)"
  "buffers_ok s \<Longrightarrow> buffers_ok (events_onmessage e s)"
  "buffers_ok s \<Longrightarrow> buffers_ok (sensor_onmessage t d s)"
  by (auto simp: buffers_ok_def alerts_onmessage_def events_onmessage_def sensor_onmessage_def
        console_error_def slice_first_def slice_last_def Let_def split: sum.splits)

lemma buffers_ok_fetchRecentAlerts: "buffers_ok s \<Longrightarrow> buffers_ok (fetchRecentAlerts s)"
  using gateway_fits [of s "instance_request ''GET'' ''/alerts'' []"]
  by (auto simp: buffers_ok_def fetchRecentAlerts_def console_error_def Let_def case_prod_unfold
        snapshot_fits_def split: sum.splits payload.splits)

lemma buffers_ok_fetchRecentEvents:
  "buffers_ok s \<Longrightarrow> buffers_ok (fetchRecentEvents start endTime s)"
  using gateway_fits [of s "instance_request ''GET''
      (''/device-events?start='' @ start @ ''&end='' @ endTime) []"]
  by (auto simp: buffers_ok_def fetchRecentEvents_def console_error_def Let_def case_prod_unfold
        snapshot_fits_def split: sum.splits payload.splits)

lemma length_as_array: "snapshot_fits (Reply st d) \<Longrightarrow> length (filter P (as_array d)) \<le> 100"
  by (auto simp: snapshot_fits_def as_array_def split: payload.splits
        intro: le_trans [OF length_filter_le])

lemma buffers_ok_fetchSensorHistory:
  "buffers_ok s \<Longrightarrow> buffers_ok (fetchSensorHistory today s)"
  using gateway_fits [of s "instance_request ''GET''
      (''/sensor-data/'' @ selectedDeviceId s @ ''?date='' @ today) []"]
  by (auto simp: buffers_ok_def fetchSensorHistory_def console_error_def Let_def case_prod_unfold
        length_as_array split: sum.splits)

lemma buffers_ok_step: "buffers_ok s \<Longrightarrow> buffers_ok (step a s)"
proof (cases a)
  case (AlertMessage d)
  then show "buffers_ok s \<Longrightarrow> ?thesis" by (simp add: buffers_ok_messages)
next
  case (EventMessage d)
  then show "buffers_ok s \<Longrightarrow> ?thesis" by (simp add: buffers_ok_messages)
next
  case (SensorMessage t d)
  then show "buffers_ok s \<Longrightarrow> ?thesis" by (simp add: buffers_ok_messages)
next
  case FetchRecentAlerts
  then show "buffers_ok s \<Longrightarrow> ?thesis" by (simp add: buffers_ok_fetchRecentAlerts)
next
  case (FetchRecentEvents x y)
  then show "buffers_ok s \<Longrightarrow> ?thesis" by (simp add: buffers_ok_fetchRecentEvents)
next
  case (FetchSensorHistory x)
  then show "buffers_ok s \<Longrightarrow> ?thesis" by (simp add: buffers_ok_fetchSensorHistory)
qed (erule buffers_ok_neutral, simp split: option.splits)+

lemma buffers_ok_run: "buffers_ok s \<Longrightarrow> buffers_ok (run ops s)"
  unfolding run_def by (induction ops arbitrary: s) (simp_all add: buffers_ok_step)

text \<open>
  C4 as stated does not hold: \<^verbatim>\<open>fetchRecentAlerts\<close> stores the snapshot as the server sent
  it. After login, with a snapshot of 51 alerts, the alert buffer holds 51 entries.
\<close>

theorem snapshot_exceeds_alert_buffer_counterexample:
  "length (alerts (run (watching_A @ [FetchRecentAlerts]) (mount Map.empty crowded_replies))) = 51"
  by code_simp

text \<open>
  What the sensor handler does to the history: a reading is put last, and the history
  cut to its last 100, when its type is the one the handler's closure holds; any other
  reading leaves the history as it was.
\<close>

lemma sensor_onmessage_history:
  "sensorHistory (sensor_onmessage captured (JSONText d) s) =
     (if SensorData.sensorType d = captured
      then drop (length (sensorHistory s) + 1 - 100) (sensorHistory s @ [d])
      else sensorHistory s)"
  by (simp add: sensor_onmessage_def JSON_parse_def slice_last_def Let_def)

text \<open>
  C4, amended. For every sequence of feed events and snapshot fetches in which every list
  the server returns holds at most 50 alerts, at most 50 device events or at most 100
  sensor readings, the alert buffer and the device-event buffer never hold more than 50
  entries and the sensor history never more than 100. Each incoming alert or device event
  whose text parses is put first and the buffer cut to its first 50.
\<close>

theorem buffers_bounded:
  assumes "\<forall>r \<in> set rs. snapshot_fits r"
  shows "length (alerts (run ops (mount ls rs))) \<le> 50 \<and>
         length (deviceEvents (run ops (mount ls rs))) \<le> 50 \<and>
         length (sensorHistory (run ops (mount ls rs))) \<le> 100 \<and>
         alerts (alerts_onmessage (JSONText a) s) = take 50 (a # alerts s) \<and>
         deviceEvents (events_onmessage (JSONText e) s) = take 50 (e # deviceEvents s)"
proof -
  have "buffers_ok (mount ls rs)"
    using assms by (simp add: buffers_ok_def mount_def)
  then have "buffers_ok (run ops (mount ls rs))"
    by (rule buffers_ok_run)
  then show ?thesis
    by (simp add: buffers_ok_def alerts_onmessage_def events_onmessage_def
          JSON_parse_def slice_first_def)
qed


text \<open>Sixty alerts arrive on the feed of a logged-in page: the buffer stops at fifty.\<close>

theorem buffers_bounded_witness:
  "list_all snapshot_fits friendly_replies \<and>
   length (alerts (run (watching_A @ replicate 60 (AlertMessage (JSONText example_alert)))
     (mount Map.empty friendly_replies))) = 50"
proof -
  have fits: "\<forall>r \<in> set friendly_replies. snapshot_fits r"
    by code_simp
  have "length (alerts (run (watching_A @ replicate 60 (AlertMessage (JSONText example_alert)))
     (mount Map.empty friendly_replies))) = 50"
    by code_simp
  with fits buffers_bounded [OF fits, where ls = Map.empty
      and ops = "watching_A @ replicate 60 (AlertMessage (JSONText example_alert))"]
  show ?thesis by (simp add: list_all_iff)
qed


section \<open>Properties of the message handlers\<close>

text \<open>
  C9. A feed event whose text is not JSON: each of the three message handlers leaves the
  state as it was but for one more line on the console. In particular the alert buffer,
  the device-event buffer, the latest readings and the sensor history are unchanged, no
  feed is closed or opened, and the reference cells are untouched.
\<close>

theorem malformed_event_changes_nothing:
  "alerts_onmessage (NotJSON t) s = s\<lparr>console := console s @ [''Failed to parse alert SSE:'']\<rparr> \<and>
   events_onmessage (NotJSON t) s = s\<lparr>console := console s @ [''Failed to parse event SSE:'']\<rparr> \<and>
   sensor_onmessage selected (NotJSON t) s
     = s\<lparr>console := console s @ [''Failed to parse sensor SSE:'']\<rparr> \<and>
   (\<forall>s' \<in> {alerts_onmessage (NotJSON t) s, events_onmessage (NotJSON t) s,
             sensor_onmessage selected (NotJSON t) s}.
      alerts s' = alerts s \<and> deviceEvents s' = deviceEvents s \<and> latestData s' = latestData s \<and>
      sensorHistory s' = sensorHistory s \<and> open_feeds s' = open_feeds s \<and>
      feed_view s' = feed_view s)"
  by (simp add: alerts_onmessage_def events_onmessage_def sensor_onmessage_def JSON_parse_def
        console_error_def open_feeds_def feed_view_def)

text \<open>A page with three feeds open receives an HTML error page on its alert feed.\<close>

theorem malformed_event_changes_nothing_witness:
  "console (alerts_onmessage (NotJSON ''<html>'') (run watching_A (mount Map.empty friendly_replies)))
     = [''Failed to parse alert SSE:''] \<and>
   length (open_feeds (alerts_onmessage (NotJSON ''<html>'')
      (run watching_A (mount Map.empty friendly_replies)))) = 3"
proof -
  have before: "length (open_feeds (run watching_A (mount Map.empty friendly_replies))) = 3"
    "console (run watching_A (mount Map.empty friendly_replies)) = []"
    by code_simp+
  have "alerts_onmessage (NotJSON ''<html>'') (run watching_A (mount Map.empty friendly_replies))
      = (run watching_A (mount Map.empty friendly_replies))
          \<lparr>console := console (run watching_A (mount Map.empty friendly_replies))
             @ [''Failed to parse alert SSE:'']\<rparr>"
    using malformed_event_changes_nothing [where t = "''<html>''"
      and s = "run watching_A (mount Map.empty friendly_replies)"]
    by blast
  then show ?thesis
    using before by (simp add: open_feeds_def)
qed


section \<open>Properties of login and of adding a device\<close>

text \<open>
  What one call through the gateway adds to the log: the request first, then at most a
  refresh and the same request again.
\<close>

lemma net_log_dispatch: "net_log (snd (dispatch w c)) = net_log w @ [InstanceCall c]"
  by (simp add: dispatch_def split: prod.splits)

lemma net_log_refresh_tokens:
  "net_log (snd (refresh_tokens w)) = net_log w \<or>
   net_log (snd (refresh_tokens w)) = net_log w @
     [RefreshCall (the (localStorage w ''refreshToken'')) (the (localStorage w ''accessToken''))]"
  by (simp add: refresh_tokens_def Let_def split: prod.splits sum.splits)

lemma gateway_log:
  "\<exists>cs. net_log (snd (axiosInstance w req)) = net_log w @ InstanceCall (request_interceptor w req) # cs \<and>
        list_all (same_target req) cs"
proof -
  let ?config = "request_interceptor w req"
  obtain result w1 where d: "dispatch w ?config = (result, w1)"
    by (cases "dispatch w ?config")
  have l1: "net_log w1 = net_log w @ [InstanceCall ?config]"
    using net_log_dispatch [of w ?config] d by simp
  obtain refreshed w2 where r: "refresh_tokens w1 = (refreshed, w2)"
    by (cases "refresh_tokens w1")
  from net_log_refresh_tokens [of w1] r
  obtain rc where l2: "net_log w2 = net_log w1 @ rc" "list_all (same_target req) rc"
  proof -
    assume hyp: "\<And>rc. net_log w2 = net_log w1 @ rc \<Longrightarrow> list_all (same_target req) rc \<Longrightarrow> thesis"
    from net_log_refresh_tokens [of w1] r
    have "net_log w2 = net_log w1 @ [] \<or> net_log w2 = net_log w1 @
      [RefreshCall (the (localStorage w1 ''refreshToken'')) (the (localStorage w1 ''accessToken''))]"
      by simp
    then show thesis
    proof
      assume "net_log w2 = net_log w1 @ []"
      then show thesis by (rule hyp) simp
    next
      assume "net_log w2 = net_log w1 @
        [RefreshCall (the (localStorage w1 ''refreshToken'')) (the (localStorage w1 ''accessToken''))]"
      then show thesis by (rule hyp) (simp add: same_target_def)
    qed
  qed
  show ?thesis
  proof (cases result)
    case (Inr resp)
    then have "net_log (snd (axiosInstance w req)) = net_log w1"
      by (simp add: axiosInstance_unfold [OF d])
    with l1 show ?thesis by (intro exI [of _ "[]"]) simp
  next
    case (Inl err)
    show ?thesis
    proof (cases "err_status err = Some 401 \<and> \<not> retry req")
      case False
      with Inl have "net_log (snd (axiosInstance w req)) = net_log w1"
        by (auto simp: axiosInstance_unfold [OF d])
      with l1 show ?thesis by (intro exI [of _ "[]"]) simp
    next
      case True
      show ?thesis
      proof (cases refreshed)
        case (Inl refreshError)
        with True \<open>result = Inl err\<close> r have "net_log (snd (axiosInstance w req)) = net_log w2"
          by (simp add: axiosInstance_unfold [OF d])
        with l1 l2 show ?thesis by (intro exI [of _ rc]) simp
      next
        case (Inr tok)
        let ?again = "request_interceptor w2
           (?config\<lparr>retry := True, Authorization := Some (Bearer tok)\<rparr>)"
        have st: "same_target req (InstanceCall ?again)"
          by (simp add: same_target_def request_interceptor_def Let_def)
        from Inr True \<open>result = Inl err\<close> r
        have "net_log (snd (axiosInstance w req)) = net_log w2 @ [InstanceCall ?again]"
          by (simp add: axiosInstance_unfold [OF d] net_log_dispatch)
        with l1 l2 st show ?thesis by (intro exI [of _ "rc @ [InstanceCall ?again]"]) simp
      qed
    qed
  qed
qed


lemma same_target_not_get_devices:
  "method req \<noteq> ''GET'' \<or> url req \<noteq> ''/devices'' \<Longrightarrow> list_all (same_target req) cs \<Longrightarrow>
   filter is_devices_get cs = []"
proof (induction cs)
  case Nil
  then show ?case by simp
next
  case (Cons c cs)
  then show ?case by (cases c) (auto simp: same_target_def)
qed

lemma devices_fetches_gateway_other:
  fixes s :: dashboard
  assumes "method req \<noteq> ''GET'' \<or> url req \<noteq> ''/devices''"
  shows "devices_fetches (snd (axiosInstance s req)) = devices_fetches s"
proof -
  have mu: "\<not> is_devices_get (InstanceCall (request_interceptor s req))"
    using assms by (simp add: request_interceptor_def Let_def)
  from gateway_log [of s req] obtain cs where
    cs: "net_log (snd (axiosInstance s req)) = net_log s @ InstanceCall (request_interceptor s req) # cs"
      "list_all (same_target req) cs"
    by blast
  from same_target_not_get_devices [OF assms cs(2)] cs(1) mu
  show ?thesis by (simp add: devices_fetches_def)
qed

lemma devices_fetches_fetchDevices: "devices_fetches s < devices_fetches (fetchDevices s)"
proof -
  let ?req = "instance_request ''GET'' ''/devices'' []"
  have mu: "is_devices_get (InstanceCall (request_interceptor s ?req))"
    by (simp add: request_interceptor_def Let_def instance_request_def)
  from gateway_log [of s ?req] obtain cs where
    cs: "net_log (snd (axiosInstance s ?req)) = net_log s @ InstanceCall (request_interceptor s ?req) # cs"
    by blast
  have "net_log (fetchDevices s) = net_log (snd (axiosInstance s ?req))"
    by (simp add: fetchDevices_def Let_def case_prod_unfold console_error_def
          split: sum.splits list.splits)
  with cs mu show ?thesis by (simp add: devices_fetches_def)
qed

lemma devices_fetches_updates [simp]:
  "devices_fetches (window_alert m s) = devices_fetches s"
  "devices_fetches (s\<lparr>newDevice := d\<rparr>) = devices_fetches s"
  "devices_fetches (s\<lparr>showAddDevice := b\<rparr>) = devices_fetches s"
  "devices_fetches (s\<lparr>alerted := a\<rparr>) = devices_fetches s"
  by (simp_all add: devices_fetches_def window_alert_def)

lemma add_device_request_target:
  "method (add_device_request d) \<noteq> ''GET'' \<or> url (add_device_request d) \<noteq> ''/devices''"
  by (simp add: add_device_request_def instance_request_def)

lemma handleAddDevice_unfold:
  assumes "Device.deviceId (newDevice s) \<noteq> []" "name (newDevice s) \<noteq> []" "location (newDevice s) \<noteq> []"
    and "axiosInstance s (add_device_request (newDevice s)) = (result, s1)"
  shows "handleAddDevice s =
     (case result of
        Inr response \<Rightarrow>
          if status response = 204 then
            window_alert ''Device added successfully!''
              ((fetchDevices s1)\<lparr>newDevice := default_newDevice, showAddDevice := False\<rparr>)
          else s1
      | Inl (AxiosError c resp) \<Rightarrow>
          if map_option status resp = Some 409 then window_alert ''Device ID already exists!'' s1
          else if map_option status resp = Some 403 then
            window_alert ''You do not have permission to add devices!'' s1
          else window_alert ''Failed to add device!'' s1
      | Inl (Error m) \<Rightarrow> s1)"
  using assms
  by (simp add: handleAddDevice_def add_device_request_def Let_def split: sum.splits error.splits)

text \<open>
  C8. The form is filled in and the call that posts it is rejected with status 409: the
  message shown is \<^verbatim>\<open>Device ID already exists!\<close>, and the state is the one the call left
  with that message added. The device list, the selection, the form and the panel are as
  before, and no \<^verbatim>\<open>GET /devices\<close> was sent.
\<close>

theorem duplicate_device_leaves_list_unchanged:
  assumes "Device.deviceId (newDevice s) \<noteq> []" and "name (newDevice s) \<noteq> []"
    and "location (newDevice s) \<noteq> []"
    and "axiosInstance s (add_device_request (newDevice s)) = (Inl (AxiosError c (Some resp)), s1)"
    and "status resp = 409"
  shows "alerted (handleAddDevice s) = alerted s @ [''Device ID already exists!''] \<and>
         devices (handleAddDevice s) = devices s \<and>
         devices_fetches (handleAddDevice s) = devices_fetches s \<and>
         newDevice (handleAddDevice s) = newDevice s \<and>
         showAddDevice (handleAddDevice s) = showAddDevice s \<and>
         selectedDeviceId (handleAddDevice s) = selectedDeviceId s \<and>
         handleAddDevice s = s1\<lparr>alerted := alerted s @ [''Device ID already exists!'']\<rparr>"
proof -
  have s1: "s1 = snd (axiosInstance s (add_device_request (newDevice s)))"
    using assms(4) by simp
  have eq: "handleAddDevice s = window_alert ''Device ID already exists!'' s1"
    using assms(5) by (simp add: handleAddDevice_unfold [OF assms(1-4)])
  have "devices_fetches s1 = devices_fetches s"
    unfolding s1 by (rule devices_fetches_gateway_other [OF add_device_request_target])
  then show ?thesis
    unfolding eq by (simp add: window_alert_def s1)
qed

text \<open>A logged-in page posts the thermometer and the server answers 409.\<close>

theorem duplicate_device_leaves_list_unchanged_witness:
  "alerted (handleAddDevice (run filling_form (mount Map.empty conflict_replies)))
     = [''Device ID already exists!''] \<and>
   devices (handleAddDevice (run filling_form (mount Map.empty conflict_replies))) = [] \<and>
   newDevice (handleAddDevice (run filling_form (mount Map.empty conflict_replies))) = thermometer \<and>
   showAddDevice (handleAddDevice (run filling_form (mount Map.empty conflict_replies)))"
proof -
  let ?s = "run filling_form (mount Map.empty conflict_replies)"
  have form: "newDevice ?s = thermometer" by code_simp
  have filled: "Device.deviceId (newDevice ?s) \<noteq> []" "name (newDevice ?s) \<noteq> []"
    "location (newDevice ?s) \<noteq> []"
    by code_simp+
  have "fst (axiosInstance ?s (add_device_request (newDevice ?s)))
      = Inl (AxiosError ((add_device_request thermometer)\<lparr>Authorization := Some ''Bearer a1''\<rparr>)
              (Some \<lparr>status = 409, data = NoData\<rparr>))"
    by code_simp
  then have call: "axiosInstance ?s (add_device_request (newDevice ?s))
      = (Inl (AxiosError ((add_device_request thermometer)\<lparr>Authorization := Some ''Bearer a1''\<rparr>)
              (Some \<lparr>status = 409, data = NoData\<rparr>)),
         snd (axiosInstance ?s (add_device_request (newDevice ?s))))"
    by (metis prod.collapse)
  have before: "alerted ?s = []" "devices ?s = []" "showAddDevice ?s"
    by code_simp+
  from duplicate_device_leaves_list_unchanged [OF filled call] before form
  show ?thesis by simp
qed

text \<open>
  C10. The form is filled in and the call that posts it has settled. The device list is
  fetched again exactly when the call resolved with status 204; the form is reset to its
  defaults and the panel closed in that case and left as they were in every other; a
  resolved call with any other status changes nothing at all, and without a 204 the
  device list is untouched.
\<close>

theorem device_created_only_on_204:
  assumes "Device.deviceId (newDevice s) \<noteq> []" and "name (newDevice s) \<noteq> []"
    and "location (newDevice s) \<noteq> []"
    and "axiosInstance s (add_device_request (newDevice s)) = (result, s1)"
  shows "(devices_fetches s < devices_fetches (handleAddDevice s) \<longleftrightarrow> created result) \<and>
         newDevice (handleAddDevice s) = (if created result then default_newDevice else newDevice s) \<and>
         showAddDevice (handleAddDevice s) = (if created result then False else showAddDevice s) \<and>
         (\<not> created result \<longrightarrow> devices (handleAddDevice s) = devices s) \<and>
         (\<forall>response. result = Inr response \<and> status response \<noteq> 204 \<longrightarrow> handleAddDevice s = s1)"
proof -
  have s1: "s1 = snd (axiosInstance s (add_device_request (newDevice s)))"
    using assms(4) by simp
  have f1: "devices_fetches s1 = devices_fetches s"
    unfolding s1 by (rule devices_fetches_gateway_other [OF add_device_request_target])
  have keep: "newDevice s1 = newDevice s" "showAddDevice s1 = showAddDevice s" "devices s1 = devices s"
    unfolding s1 by simp_all
  show ?thesis
  proof (cases "created result")
    case True
    then obtain response where r: "result = Inr response" "status response = 204"
      by (auto simp: created_def split: sum.splits)
    have eq: "handleAddDevice s = window_alert ''Device added successfully!''
              ((fetchDevices s1)\<lparr>newDevice := default_newDevice, showAddDevice := False\<rparr>)"
      using r by (simp add: handleAddDevice_unfold [OF assms(1-4)])
    show ?thesis
      using True r devices_fetches_fetchDevices [of s1] f1
      unfolding eq by (simp add: window_alert_def)
  next
    case False
    have "devices_fetches (handleAddDevice s) = devices_fetches s
        \<and> newDevice (handleAddDevice s) = newDevice s
        \<and> showAddDevice (handleAddDevice s) = showAddDevice s
        \<and> devices (handleAddDevice s) = devices s
        \<and> (\<forall>response. result = Inr response \<longrightarrow> handleAddDevice s = s1)"
      using False f1 keep
      by (auto simp: handleAddDevice_unfold [OF assms(1-4)] created_def window_alert_def
            devices_fetches_def split: sum.splits error.splits)
    with False show ?thesis by simp
  qed
qed


text \<open>The server answers 204, then the list with the new device.\<close>

theorem device_created_only_on_204_witness:
  "devices_fetches (run filling_form (mount Map.empty accepting_replies))
     < devices_fetches (handleAddDevice (run filling_form (mount Map.empty accepting_replies))) \<and>
   newDevice (handleAddDevice (run filling_form (mount Map.empty accepting_replies)))
     = default_newDevice \<and>
   \<not> showAddDevice (handleAddDevice (run filling_form (mount Map.empty accepting_replies)))"
proof -
  let ?s = "run filling_form (mount Map.empty accepting_replies)"
  have filled: "Device.deviceId (newDevice ?s) \<noteq> []" "name (newDevice ?s) \<noteq> []"
    "location (newDevice ?s) \<noteq> []"
    by code_simp+
  have "created (fst (axiosInstance ?s (add_device_request (newDevice ?s))))"
    by code_simp
  with device_created_only_on_204 [OF filled, where result = "fst (axiosInstance ?s (add_device_request (newDevice ?s)))"
      and ?s1.0 = "snd (axiosInstance ?s (add_device_request (newDevice ?s)))"]
  show ?thesis by simp
qed








end
